theory Spec2Isabelle
  imports Main "HOL-Library.Word"
begin

section \<open>JavaScript strings and numbers as the routes use them\<close>

text \<open>
  A JavaScript string is modelled as a \<open>string\<close> whose characters are the code units
  below 256. A JavaScript number that holds a page number, a credit amount or a
  rotation is modelled as an \<open>int\<close>; \<open>NaN\<close> is \<open>None\<close> of \<open>int option\<close>. The numbers
  the routes compare are page counts and balances, far below \<open>2 ^ 53\<close>, where the
  doubles of JavaScript are exact; a longer digit string rounds to a double that is
  still above every page count, so no comparison of the model differs.
\<close>

definition isWhiteSpace :: "char \<Rightarrow> bool" where
  "isWhiteSpace c =
     (c \<in> set [CHR 0x09, CHR 0x0A, CHR 0x0B, CHR 0x0C, CHR 0x0D, CHR 0x20, CHR 0xA0])"

text \<open>\<open>String.prototype.trim\<close>: white space is removed at both ends.\<close>

definition trim :: "string \<Rightarrow> string" where
  "trim s = rev (dropWhile isWhiteSpace (rev (dropWhile isWhiteSpace s)))"

text \<open>
  \<open>String.prototype.split\<close> with a separator of one character: the pieces between
  the separators, empty pieces included; the empty string gives one empty piece.
\<close>

fun split_js :: "char \<Rightarrow> string \<Rightarrow> string list" where
  "split_js sep [] = [[]]"
| "split_js sep (c # cs) =
     (if c = sep then [] # split_js sep cs
      else (case split_js sep cs of
              [] \<Rightarrow> [[c]]
            | p # ps \<Rightarrow> (c # p) # ps))"

text \<open>
  \<open>parseInt\<close> with no radix: leading white space is skipped, one sign is read, a
  prefix \<open>0x\<close> or \<open>0X\<close> selects radix 16, and the longest prefix of digits of the
  radix is the value. No digit at all gives \<open>NaN\<close>.
\<close>

definition digitValue :: "char \<Rightarrow> nat option" where
  "digitValue c =
     (let n = (of_char c :: nat) in
      if 48 \<le> n \<and> n \<le> 57 then Some (n - 48)
      else if 97 \<le> n \<and> n \<le> 122 then Some (n - 87)
      else if 65 \<le> n \<and> n \<le> 90 then Some (n - 55)
      else None)"

definition radixDigit :: "nat \<Rightarrow> char \<Rightarrow> bool" where
  "radixDigit R c = (case digitValue c of None \<Rightarrow> False | Some d \<Rightarrow> d < R)"

definition mathInt :: "nat \<Rightarrow> string \<Rightarrow> int" where
  "mathInt R Z =
     foldl (\<lambda>acc c. acc * int R + int (case digitValue c of None \<Rightarrow> 0 | Some d \<Rightarrow> d)) 0 Z"

definition parseInt :: "string \<Rightarrow> int option" where
  "parseInt inputString =
     (let S = dropWhile isWhiteSpace inputString;
          sign = (if S \<noteq> [] \<and> hd S = CHR ''-'' then - 1 else 1);
          S1 = (if S \<noteq> [] \<and> (hd S = CHR ''+'' \<or> hd S = CHR ''-'') then tl S else S);
          hex = (take 2 S1 = ''0x'' \<or> take 2 S1 = ''0X'');
          R = (if hex then 16 else 10);
          S2 = (if hex then drop 2 S1 else S1);
          Z = takeWhile (radixDigit R) S2
      in if Z = [] then None else Some (sign * mathInt R Z))"

text \<open>
  \<open>[...new Set(indices)]\<close>: the elements in the order of their first occurrence,
  each once.
\<close>

definition setSpread :: "int list \<Rightarrow> int list" where
  "setSpread xs = fold (\<lambda>x acc. if x \<in> set acc then acc else acc @ [x]) xs []"

section \<open>The page-range parser\<close>

text \<open>
  The loop \<open>for (let i = start; i <= end && i <= totalPages; i++)\<close> of
  \<open>parsePageRange\<close>, pushing \<open>i - 1\<close> when \<open>i >= 1\<close>. It stops at the latest when
  \<open>i\<close> passes \<open>totalPages\<close>.
\<close>

function rangeLoop :: "int \<Rightarrow> int \<Rightarrow> int \<Rightarrow> int list \<Rightarrow> int list" where
  "rangeLoop i end' totalPages indices =
     (if i \<le> end' \<and> i \<le> totalPages
      then rangeLoop (i + 1) end' totalPages (if i \<ge> 1 then indices @ [i - 1] else indices)
      else indices)"
  by pat_completeness auto
termination
  by (relation "measure (\<lambda>(i, e, t, acc). nat (t + 1 - i))") auto

declare rangeLoop.simps [simp del]

text \<open>
  With \<open>start\<close> or \<open>end\<close> being \<open>NaN\<close> (or \<open>undefined\<close>) the loop condition is false
  at once.
\<close>

definition forRange :: "int option \<Rightarrow> int option \<Rightarrow> int \<Rightarrow> int list \<Rightarrow> int list" where
  "forRange start end' totalPages indices =
     (case start of
        None \<Rightarrow> indices
      | Some s \<Rightarrow> (case end' of
                    None \<Rightarrow> indices
                  | Some e \<Rightarrow> rangeLoop s e totalPages indices))"

text \<open>The body of \<open>for (const part of parts)\<close>.\<close>

definition parsePart :: "int \<Rightarrow> int list \<Rightarrow> string \<Rightarrow> int list" where
  "parsePart totalPages indices part =
     (let trimmed = trim part in
      if CHR ''-'' \<in> set trimmed then
        (let nums = map (\<lambda>n. parseInt (trim n)) (split_js CHR ''-'' trimmed);
             start = (case nums of [] \<Rightarrow> None | a # _ \<Rightarrow> a);
             end' = (case nums of a # b # _ \<Rightarrow> b | _ \<Rightarrow> None)
         in forRange start end' totalPages indices)
      else
        (case parseInt trimmed of
           None \<Rightarrow> indices
         | Some num \<Rightarrow>
             if num \<ge> 1 \<and> num \<le> totalPages then indices @ [num - 1] else indices))"

definition parsePageRange :: "string \<Rightarrow> int \<Rightarrow> int list" where
  "parsePageRange range' totalPages =
     sort (setSpread (foldl (parsePart totalPages) [] (split_js CHR '','' range')))"

section \<open>Documents, uploads and form data\<close>

text \<open>
  The PDF library is an external collaborator. A loaded document is the list of its
  pages; of a page the model keeps an identifier of its content and the rotation
  that \<open>getRotation().angle\<close> reads and \<open>setRotation\<close> stores (\<open>setRotation\<close> throws
  when it is given an angle that is no multiple of 90). An uploaded \<open>File\<close> has a
  name and the document that \<open>PDFDocument.load\<close> reads from its bytes, or the message
  of the error \<open>load\<close> throws. The form data of a request have the file and the text
  entries; \<open>formData.get(key)\<close> is \<open>null\<close> (\<open>None\<close>) for an absent key. A handler
  returns the document it hands to \<open>save()\<close>, the file name and the message, or throws
  (\<open>Inl\<close>, with the message of the error).
\<close>

record page =
  content :: nat
  rotation :: int

record upload =
  name :: string
  document :: "string + page list"

record form_data =
  file' :: "upload option"
  entries :: "string \<rightharpoonup> string"

record handler_result =
  pdfBytes :: "page list"
  filename :: string
  resultMessage :: string

text \<open>
  \<open>formData.get(key) as string\<close> passed to \<open>parseInt\<close>: \<open>null\<close> becomes the string
  \<open>null\<close>. \<open>v || dflt\<close> on a number replaces \<open>NaN\<close> and 0, on a string \<open>null\<close> and the empty
  string.
\<close>

definition asString :: "string option \<Rightarrow> string" where
  "asString v = (case v of None \<Rightarrow> ''null'' | Some s \<Rightarrow> s)"

definition numberOr :: "int option \<Rightarrow> int \<Rightarrow> int" where
  "numberOr v dflt = (case v of None \<Rightarrow> dflt | Some n \<Rightarrow> if n = 0 then dflt else n)"

definition stringOr :: "string option \<Rightarrow> string \<Rightarrow> string" where
  "stringOr v dflt = (case v of None \<Rightarrow> dflt | Some s \<Rightarrow> if s = [] then dflt else s)"

text \<open>The decimal digits of a number in a template literal.\<close>

fun showNat :: "nat \<Rightarrow> string" where
  "showNat n =
     (if n < 10 then [char_of (48 + n)]
      else showNat (n div 10) @ [char_of (48 + n mod 10)])"

declare showNat.simps [simp del]

definition showInt :: "int \<Rightarrow> string" where
  "showInt i = (if i < 0 then CHR ''-'' # showNat (nat (- i)) else showNat (nat i))"

text \<open>\<open>String.prototype.replace\<close> with a string pattern: the first occurrence only.\<close>

fun replaceFirst :: "string \<Rightarrow> string \<Rightarrow> string \<Rightarrow> string" where
  "replaceFirst pat rep [] = (if pat = [] then rep else [])"
| "replaceFirst pat rep (c # cs) =
     (if take (length pat) (c # cs) = pat then rep @ drop (length pat) (c # cs)
      else c # replaceFirst pat rep cs)"

text \<open>\<open>Array.prototype.forEach\<close> with a callback that may throw: the first error ends it.\<close>

fun forEach :: "('s \<Rightarrow> 'a \<Rightarrow> string + 's) \<Rightarrow> 's \<Rightarrow> 'a list \<Rightarrow> string + 's" where
  "forEach f s [] = Inr s"
| "forEach f s (x # xs) = (case f s x of Inl e \<Rightarrow> Inl e | Inr s' \<Rightarrow> forEach f s' xs)"

text \<open>
  \<open>copyPages(srcDoc, indices)\<close> of the library: the pages at the indices, in the order
  of the indices. It throws when an index is \<open>NaN\<close> or no page of the source.
\<close>

definition copyPages :: "page list \<Rightarrow> int option list \<Rightarrow> string + page list" where
  "copyPages srcPages indices =
     (if list_all (\<lambda>i. case i of None \<Rightarrow> False
                          | Some k \<Rightarrow> 0 \<le> k \<and> k < int (length srcPages)) indices
      then Inr (map (\<lambda>i. srcPages ! nat (the i)) indices)
      else Inl ''copyPages: no page at the index'')"

text \<open>
  \<open>Array.from({ length: totalPages }, (_, i) => i)\<close>, and the choice of the pages that
  \<open>handleRotate\<close> and \<open>handleWatermark\<close> make with the same chain of \<open>if\<close>: all pages,
  the odd pages (even indices), the even pages, or a page range.
\<close>

definition allIndices :: "int \<Rightarrow> int list" where
  "allIndices totalPages = map int [0..<nat totalPages]"

definition selectPages :: "string \<Rightarrow> int \<Rightarrow> int list" where
  "selectPages pages totalPages =
     (if pages = ''all'' then allIndices totalPages
      else if pages = ''odd'' then filter (\<lambda>i. i mod 2 = 0) (allIndices totalPages)
      else if pages = ''even'' then filter (\<lambda>i. i mod 2 = 1) (allIndices totalPages)
      else parsePageRange pages totalPages)"

text \<open>
  The callback of \<open>pageIndices.forEach\<close> in \<open>handleRotate\<close>: \<open>getPage(index)\<close>, then
  \<open>setRotation(degrees(currentRotation + angle))\<close>. The library asserts that the new
  angle is a multiple of 90 and throws otherwise, which ends the handler.
\<close>

definition rotatePage :: "int \<Rightarrow> page list \<Rightarrow> int \<Rightarrow> string + page list" where
  "rotatePage angle pdf index =
     (if 0 \<le> index \<and> index < int (length pdf)
      then (let page = pdf ! nat index;
                currentRotation = rotation page
            in if (currentRotation + angle) mod 90 = 0
               then Inr (pdf[nat index := page\<lparr>rotation := currentRotation + angle\<rparr>])
               else Inl (''degreesAngle must be a multiple of 90, but was actually '' @
                         showInt (currentRotation + angle)))
      else Inl ''index out of range'')"

text \<open>
  \<open>parseInt(formData.get('angle') as string) || 90\<close> and
  \<open>formData.get('pages') as string || 'all'\<close>.
\<close>

definition rotationAngle :: "form_data \<Rightarrow> int" where
  "rotationAngle formData = numberOr (parseInt (asString (entries formData ''angle''))) 90"

definition pagesSelector :: "form_data \<Rightarrow> string" where
  "pagesSelector formData = stringOr (entries formData ''pages'') ''all''"

definition handleRotate :: "form_data \<Rightarrow> string + handler_result" where
  "handleRotate formData =
     (let angle = rotationAngle formData;
          pages = pagesSelector formData
      in case file' formData of
           None \<Rightarrow> Inl ''PDF file required''
         | Some f \<Rightarrow>
             if angle \<notin> set [90, 180, 270, - 90, - 180, - 270]
             then Inl ''Invalid rotation angle. Use 90, 180, or 270 degrees''
             else
               (case document f of
                  Inl e \<Rightarrow> Inl e
                | Inr pdf \<Rightarrow>
                    (let totalPages = int (length pdf);
                         pageIndices = selectPages pages totalPages
                     in case forEach (rotatePage angle) pdf pageIndices of
                          Inl e \<Rightarrow> Inl e
                        | Inr pdf' \<Rightarrow>
                            Inr \<lparr>pdfBytes = pdf',
                                 filename = replaceFirst ''.pdf'' [] (name f) @ ''_rotated_'' @
                                            showInt angle @ ''deg.pdf'',
                                 resultMessage = ''Rotated '' @ showInt (int (length pageIndices)) @
                                            '' pages by '' @ showInt angle @ [CHR 0xB0]\<rparr>)))"



text \<open>
  \<open>handleWatermark\<close>: what the callback does with one selected page (the width of
  the text in the font, the floating-point coordinates, colour and opacity, and
  \<open>page.drawText\<close>) is the parameter \<open>drawText\<close>. It gives the page with the text drawn,
  or throws (\<open>Inl\<close>), as the library does on a text its font cannot encode; that ends
  the handler.
\<close>

definition handleWatermark ::
  "(form_data \<Rightarrow> page \<Rightarrow> string + page) \<Rightarrow> form_data \<Rightarrow> string + handler_result" where
  "handleWatermark drawText formData =
     (let text' = stringOr (entries formData ''text'') ''CONFIDENTIAL'';
          pages = pagesSelector formData
      in case file' formData of
           None \<Rightarrow> Inl ''PDF file required''
         | Some f \<Rightarrow>
             (case document f of
                Inl e \<Rightarrow> Inl e
              | Inr pdf \<Rightarrow>
                  (let totalPages = int (length pdf);
                       pageIndices = selectPages pages totalPages
                   in case forEach (\<lambda>pdf index.
                               if 0 \<le> index \<and> index < int (length pdf)
                               then (case drawText formData (pdf ! nat index) of
                                       Inl e \<Rightarrow> Inl e
                                     | Inr page \<Rightarrow> Inr (pdf[nat index := page]))
                               else Inl ''index out of range'') pdf pageIndices of
                        Inl e \<Rightarrow> Inl e
                      | Inr pdf' \<Rightarrow>
                          Inr \<lparr>pdfBytes = pdf',
                               filename = replaceFirst ''.pdf'' [] (name f) @ ''_watermarked.pdf'',
                               resultMessage = ''Added '' @ [CHR 0x22] @ text' @ [CHR 0x22] @
                                 '' watermark to '' @
                                 showInt (int (length pageIndices)) @ '' pages''\<rparr>)))"

text \<open>
  \<open>handleExtractPages\<close>, \<open>handleDeletePages\<close> and \<open>handleReorderPages\<close>. Each throws when
  the file or its text entry is missing (\<open>!file || !range\<close>).
\<close>

definition handleExtractPages :: "form_data \<Rightarrow> string + handler_result" where
  "handleExtractPages formData =
     (case file' formData of
        None \<Rightarrow> Inl ''PDF file and page range required''
      | Some f \<Rightarrow>
          (case entries formData ''range'' of
             None \<Rightarrow> Inl ''PDF file and page range required''
           | Some range' \<Rightarrow>
               if range' = [] then Inl ''PDF file and page range required''
               else
                 (case document f of
                    Inl e \<Rightarrow> Inl e
                  | Inr sourcePdf \<Rightarrow>
                      (let totalPages = int (length sourcePdf);
                           pageIndices = parsePageRange range' totalPages
                       in case copyPages sourcePdf (map Some pageIndices) of
                            Inl e \<Rightarrow> Inl e
                          | Inr pages \<Rightarrow>
                              Inr \<lparr>pdfBytes = pages,
                                   filename = replaceFirst ''.pdf'' [] (name f) @ ''_extracted.pdf'',
                                   resultMessage = ''Extracted '' @
                                     showInt (int (length pageIndices)) @ '' pages from '' @
                                     showInt totalPages @ '' total''\<rparr>))))"

definition handleDeletePages :: "form_data \<Rightarrow> string + handler_result" where
  "handleDeletePages formData =
     (case file' formData of
        None \<Rightarrow> Inl ''PDF file and pages to delete required''
      | Some f \<Rightarrow>
          (case entries formData ''pages'' of
             None \<Rightarrow> Inl ''PDF file and pages to delete required''
           | Some pagesToDelete \<Rightarrow>
               if pagesToDelete = [] then Inl ''PDF file and pages to delete required''
               else
                 (case document f of
                    Inl e \<Rightarrow> Inl e
                  | Inr sourcePdf \<Rightarrow>
                      (let totalPages = int (length sourcePdf);
                           deleteIndices = parsePageRange pagesToDelete totalPages;
                           keepIndices = filter (\<lambda>i. i \<notin> set deleteIndices) (allIndices totalPages)
                       in if keepIndices = [] then Inl ''Cannot delete all pages''
                          else
                            (case copyPages sourcePdf (map Some keepIndices) of
                               Inl e \<Rightarrow> Inl e
                             | Inr pages \<Rightarrow>
                                 Inr \<lparr>pdfBytes = pages,
                                      filename = replaceFirst ''.pdf'' [] (name f) @ ''_modified.pdf'',
                                      resultMessage = ''Deleted '' @
                                        showInt (int (length deleteIndices)) @ '' pages, '' @
                                        showInt (int (length keepIndices)) @ '' remaining''\<rparr>)))))"

definition handleReorderPages :: "form_data \<Rightarrow> string + handler_result" where
  "handleReorderPages formData =
     (case file' formData of
        None \<Rightarrow> Inl ''PDF file and new page order required''
      | Some f \<Rightarrow>
          (case entries formData ''order'' of
             None \<Rightarrow> Inl ''PDF file and new page order required''
           | Some newOrder \<Rightarrow>
               if newOrder = [] then Inl ''PDF file and new page order required''
               else
                 (case document f of
                    Inl e \<Rightarrow> Inl e
                  | Inr sourcePdf \<Rightarrow>
                      (let totalPages = int (length sourcePdf);
                           orderIndices = map (\<lambda>n. map_option (\<lambda>v. v - 1) (parseInt (trim n)))
                                            (split_js CHR '','' newOrder)
                       in if int (length orderIndices) \<noteq> totalPages
                          then Inl (''Order must include all '' @ showInt totalPages @ '' pages'')
                          else if list_ex (\<lambda>i. case i of None \<Rightarrow> False
                                                | Some k \<Rightarrow> k < 0 \<or> k \<ge> totalPages) orderIndices
                          then Inl ''Invalid page number in order''
                          else
                            (case copyPages sourcePdf orderIndices of
                               Inl e \<Rightarrow> Inl e
                             | Inr pages \<Rightarrow>
                                 Inr \<lparr>pdfBytes = pages,
                                      filename = replaceFirst ''.pdf'' [] (name f) @ ''_reordered.pdf'',
                                      resultMessage = ''Reordered '' @ showInt totalPages @
                                        '' pages''\<rparr>)))))"

section \<open>The datastore collaborator\<close>

text \<open>
  The relational datastore is an external collaborator: the routes reach it through
  the Supabase client, whose calls resolve to \<open>{data, error}\<close> and do not throw. The
  model keeps the tables the routes use, the identities behind the bearer
  tokens, the trace of the calls made so far, and a plan of faults: the call number
  \<open>k\<close> fails with \<open>faults d k\<close> when that is not \<open>None\<close>, whatever the tables hold. A
  failed call changes no table.
\<close>

record db_error =
  code :: string
  message :: string
  instanceofError :: bool

text \<open>
  A row of \<open>user_credits\<close>, one per \<open>user_id\<close>. \<open>lib/supabase-client.ts\<close> and
  \<open>/credits/deduct\<close> read and write the column \<open>credits\<close>; the PDF operations route reads the column
  \<open>balance\<close>. A column an insert does not name is left null.
\<close>

record credit_row =
  credits :: "int option"
  balance :: "int option"

text \<open>
  A row of the audit table \<open>credit_transactions\<close>: the ledger writes \<open>reason\<close> and
  \<open>created_at\<close>, the PDF operations route \<open>type\<close>, \<open>description\<close> and \<open>app\<close>.
\<close>

record credit_transaction =
  tx_user_id :: string
  tx_amount :: int
  tx_reason :: "string option"
  tx_created_at :: "string option"
  tx_type :: "string option"
  tx_description :: "string option"
  tx_app :: "string option"

text \<open>
  A row of \<open>certificate_records\<close>, with the columns the signature route writes and
  reads and the two the schema adds for the end of a certificate's life.
\<close>

record certificate =
  certificate_id :: string
  cert_user_id :: string
  signer_name :: string
  cert_reason :: string
  document_hash :: string
  cert_created_at :: string
  expires_at :: "string option"
  revoked_at :: "string option"

text \<open>The calls the routes make, as the trace records them.\<close>

datatype db_call =
    AuthGetUser string
  | SelectCredits string string
  | InsertCredits string int
  | UpdateCredits string int
  | InsertTransaction credit_transaction
  | RpcDeductCredits string int string
  | SelectCertificate string
  | SelectCertificatesByHash string

record db =
  user_credits :: "string \<rightharpoonup> credit_row"
  credit_transactions :: "credit_transaction list"
  certificate_records :: "certificate list"
  auth_users :: "string \<rightharpoonup> string"
  calls :: "db_call list"
  faults :: "nat \<Rightarrow> db_error option"

text \<open>Every call is appended to the trace; its number decides whether it fails.\<close>

definition issue :: "db_call \<Rightarrow> db \<Rightarrow> db_error option \<times> db" where
  "issue c d = (faults d (length (calls d)), d\<lparr>calls := calls d @ [c]\<rparr>)"

definition noRows :: db_error where
  "noRows = \<lparr>code = ''PGRST116'',
             message = ''JSON object requested, multiple (or no) rows returned'',
             instanceofError = False\<rparr>"

definition duplicateKey :: db_error where
  "duplicateKey = \<lparr>code = ''23505'',
             message = ''duplicate key value violates unique constraint'',
             instanceofError = False\<rparr>"

text \<open>
  \<open>.from('user_credits').select(column).eq('user_id', userId).single()\<close>: the row of
  the user, of which the caller reads the selected column, or the error \<open>PGRST116\<close>
  when there is none.
\<close>

definition select_single ::
  "string \<Rightarrow> string \<Rightarrow> db \<Rightarrow> (credit_row option \<times> db_error option) \<times> db" where
  "select_single column userId d =
     (case issue (SelectCredits column userId) d of
        (Some e, d1) \<Rightarrow> ((None, Some e), d1)
      | (None, d1) \<Rightarrow>
          (case user_credits d1 userId of
             None \<Rightarrow> ((None, Some noRows), d1)
           | Some row \<Rightarrow> ((Some row, None), d1)))"

text \<open>\<open>.from('user_credits').insert({ user_id: userId, credits: c })\<close>.\<close>

definition insert_credits :: "string \<Rightarrow> int \<Rightarrow> db \<Rightarrow> db_error option \<times> db" where
  "insert_credits userId c d =
     (case issue (InsertCredits userId c) d of
        (Some e, d1) \<Rightarrow> (Some e, d1)
      | (None, d1) \<Rightarrow>
          (case user_credits d1 userId of
             Some row \<Rightarrow> (Some duplicateKey, d1)
           | None \<Rightarrow>
               (None, d1\<lparr>user_credits :=
                  (user_credits d1)(userId \<mapsto> \<lparr>credits = Some c, balance = None\<rparr>)\<rparr>)))"

text \<open>
  \<open>.from('user_credits').update({ credits: c }).eq('user_id', userId)\<close>: the row of the
  user, when there is one, gets the new value; no row is no error.
\<close>

definition update_credits :: "string \<Rightarrow> int \<Rightarrow> db \<Rightarrow> db_error option \<times> db" where
  "update_credits userId c d =
     (case issue (UpdateCredits userId c) d of
        (Some e, d1) \<Rightarrow> (Some e, d1)
      | (None, d1) \<Rightarrow>
          (case user_credits d1 userId of
             None \<Rightarrow> (None, d1)
           | Some row \<Rightarrow>
               (None, d1\<lparr>user_credits :=
                  (user_credits d1)(userId \<mapsto> row\<lparr>credits := Some c\<rparr>)\<rparr>)))"

text \<open>\<open>.from('credit_transactions').insert(t)\<close>: the audit row is appended.\<close>

definition insert_transaction :: "credit_transaction \<Rightarrow> db \<Rightarrow> db_error option \<times> db" where
  "insert_transaction t d =
     (case issue (InsertTransaction t) d of
        (Some e, d1) \<Rightarrow> (Some e, d1)
      | (None, d1) \<Rightarrow> (None, d1\<lparr>credit_transactions := credit_transactions d1 @ [t]\<rparr>))"

section \<open>The credit ledger\<close>

text \<open>
  \<open>data?.credits || 0\<close>: a missing row or a null column reads as 0 (and 0 as 0).
\<close>

definition orZero :: "int option \<Rightarrow> int" where
  "orZero v = (case v of None \<Rightarrow> 0 | Some n \<Rightarrow> n)"

text \<open>
  \<open>checkUserCredits\<close> of \<open>lib/supabase-client.ts\<close>. \<open>Inl\<close> is the error it throws. A user
  with no row gets one with 0 credits and the answer \<open>{hasCredits: false, current: 0}\<close>.
\<close>

record credit_check =
  hasCredits :: bool
  current :: int

definition checkUserCredits :: "string \<Rightarrow> int \<Rightarrow> db \<Rightarrow> (db_error + credit_check) \<times> db" where
  "checkUserCredits userId required' d =
     (case select_single ''credits'' userId d of
        ((data, Some error'), d1) \<Rightarrow>
          if code error' = ''PGRST116''
          then (case insert_credits userId 0 d1 of
                  (_, d2) \<Rightarrow> (Inr \<lparr>hasCredits = False, current = 0\<rparr>, d2))
          else (Inl error', d1)
      | ((data, None), d1) \<Rightarrow>
          (let current' = orZero (case data of None \<Rightarrow> None | Some row \<Rightarrow> credits row)
           in (Inr \<lparr>hasCredits = (current' \<ge> required'), current = current'\<rparr>, d1)))"

text \<open>
  \<open>deductCreditsAtomic\<close>: the balance is read first; the decrement and the audit row
  follow inside \<open>try\<close>, and \<open>catch\<close> turns an error of either into a result with
  \<open>success: false\<close>. A failed audit insert is followed by the write of the balance read
  at the start. \<open>now\<close> is \<open>new Date().toISOString()\<close>.
\<close>

record deduct_result =
  success :: bool
  error :: "string option"
  remaining :: int
  required :: "int option"

definition catchResult :: "db_error \<Rightarrow> int \<Rightarrow> deduct_result" where
  "catchResult e current' =
     \<lparr>success = False,
      error = Some (if instanceofError e then message e else ''Transaction failed''),
      remaining = current',
      required = None\<rparr>"

definition deductCreditsAtomic ::
  "string \<Rightarrow> int \<Rightarrow> string \<Rightarrow> string \<Rightarrow> db \<Rightarrow> (db_error + deduct_result) \<times> db" where
  "deductCreditsAtomic userId amount reason now d =
     (case checkUserCredits userId amount d of
        (Inl thrown, d1) \<Rightarrow> (Inl thrown, d1)
      | (Inr chk, d1) \<Rightarrow>
          if \<not> hasCredits chk
          then (Inr \<lparr>success = False, error = Some ''Insufficient credits'',
                      remaining = current chk, required = Some amount\<rparr>, d1)
          else
            (case update_credits userId (current chk - amount) d1 of
               (Some updateError, d2) \<Rightarrow> (Inr (catchResult updateError (current chk)), d2)
             | (None, d2) \<Rightarrow>
                 (case insert_transaction
                         \<lparr>tx_user_id = userId, tx_amount = - amount, tx_reason = Some reason,
                          tx_created_at = Some now, tx_type = None, tx_description = None,
                          tx_app = None\<rparr> d2 of
                    (Some logError, d3) \<Rightarrow>
                      (case update_credits userId (current chk) d3 of
                         (_, d4) \<Rightarrow> (Inr (catchResult logError (current chk)), d4))
                  | (None, d3) \<Rightarrow>
                      (Inr \<lparr>success = True, error = None,
                             remaining = current chk - amount, required = None\<rparr>, d3))))"

section \<open>Certificate verification\<close>

text \<open>
  \<open>hashDocument\<close> of \<open>pdf-signatures/route.ts\<close>: the bytes of the digest, each written
  as two lower-case hexadecimal digits. \<open>crypto.subtle.digest('SHA-256', _)\<close> belongs to
  the platform and is the parameter \<open>digest\<close>.
\<close>

definition toString16 :: "nat \<Rightarrow> string" where
  "toString16 n =
     (if n < 16 then [''0123456789abcdef'' ! n]
      else [''0123456789abcdef'' ! (n div 16), ''0123456789abcdef'' ! (n mod 16)])"

definition padStart :: "nat \<Rightarrow> char \<Rightarrow> string \<Rightarrow> string" where
  "padStart targetLength c s = replicate (targetLength - length s) c @ s"

definition hashDocument :: "(8 word list \<Rightarrow> 8 word list) \<Rightarrow> 8 word list \<Rightarrow> string" where
  "hashDocument digest arrayBuffer =
     concat (map (\<lambda>b. padStart 2 CHR ''0'' (toString16 (unat b))) (digest arrayBuffer))"

text \<open>
  The two queries of \<open>handleVerifySignature\<close>: the certificate of an id, read with
  \<open>.single()\<close>, and the certificates of a document hash.
\<close>

definition select_certificate :: "string \<Rightarrow> db \<Rightarrow> (certificate option \<times> db_error option) \<times> db" where
  "select_certificate certificateId d =
     (case issue (SelectCertificate certificateId) d of
        (Some e, d1) \<Rightarrow> ((None, Some e), d1)
      | (None, d1) \<Rightarrow>
          (case filter (\<lambda>c. certificate_id c = certificateId) (certificate_records d1) of
             [cert] \<Rightarrow> ((Some cert, None), d1)
           | _ \<Rightarrow> ((None, Some noRows), d1)))"

definition select_certificates_by_hash :: "string \<Rightarrow> db \<Rightarrow> certificate list option \<times> db" where
  "select_certificates_by_hash documentHash d =
     (case issue (SelectCertificatesByHash documentHash) d of
        (Some e, d1) \<Rightarrow> (None, d1)
      | (None, d1) \<Rightarrow>
          (Some (filter (\<lambda>c. document_hash c = documentHash) (certificate_records d1)), d1))"

record verify_form =
  pdfFile :: "8 word list option"
  certificateId :: "string option"

text \<open>
  The \<open>data\<close> of the answer: the check of one certificate (\<open>valid\<close>, and when the
  certificate was found its signer, date, reason, \<open>hashMatch\<close> and \<open>warning\<close>), or the
  list of the certificates that carry the hash of the document.
\<close>

record certificate_check =
  valid :: bool
  checkedId :: string
  signerName :: "string option"
  signedAt :: "string option"
  checkReason :: "string option"
  hashMatch :: "bool option"
  warning :: "string option"

record certificate_summary =
  summaryId :: string
  summarySigner :: string
  summarySignedAt :: string
  summaryReason :: string

datatype verify_data =
    Check certificate_check
  | Signatures bool "certificate_summary list"

record verify_result =
  verifyData :: verify_data
  verifyMessage :: string

definition handleVerifySignature ::
  "(8 word list \<Rightarrow> 8 word list) \<Rightarrow> verify_form \<Rightarrow> db \<Rightarrow> (string + verify_result) \<times> db" where
  "handleVerifySignature digest formData d =
     (case pdfFile formData of
        None \<Rightarrow> (Inl ''PDF file required'', d)
      | Some arrayBuffer \<Rightarrow>
          (let documentHash = hashDocument digest arrayBuffer in
           if stringOr (certificateId formData) [] \<noteq> [] then
             (case select_certificate (stringOr (certificateId formData) []) d of
                ((Some cert, None), d1) \<Rightarrow>
                  (let hashMatch' = (document_hash cert = documentHash) in
                   (Inr \<lparr>verifyData = Check
                           \<lparr>valid = hashMatch',
                            checkedId = stringOr (certificateId formData) [],
                            signerName = Some (signer_name cert),
                            signedAt = Some (cert_created_at cert),
                            checkReason = Some (cert_reason cert),
                            hashMatch = Some hashMatch',
                            warning = (if hashMatch' then None
                                       else Some ''Document has been modified since signing'')\<rparr>,
                         verifyMessage = (if hashMatch' then ''Certificate verified successfully''
                                          else ''Document modified since signing'')\<rparr>, d1))
              | (_, d1) \<Rightarrow>
                  (Inr \<lparr>verifyData = Check
                          \<lparr>valid = False,
                           checkedId = stringOr (certificateId formData) [],
                           signerName = None, signedAt = None,
                           checkReason = Some ''Certificate not found'',
                           hashMatch = None, warning = None\<rparr>,
                        verifyMessage = ''Certificate verification failed''\<rparr>, d1))
           else
             (case select_certificates_by_hash documentHash d of
                (Some (c # cs), d1) \<Rightarrow>
                  (Inr \<lparr>verifyData = Signatures True
                          (map (\<lambda>c. \<lparr>summaryId = certificate_id c,
                                      summarySigner = signer_name c,
                                      summarySignedAt = cert_created_at c,
                                      summaryReason = cert_reason c\<rparr>) (c # cs)),
                        verifyMessage = ''Found '' @ showInt (int (length (c # cs))) @
                          '' certificate(s) for this document''\<rparr>, d1)
              | (_, d1) \<Rightarrow>
                  (Inr \<lparr>verifyData = Signatures False [],
                        verifyMessage = ''No signatures found''\<rparr>, d1))))"

section \<open>The PDF operations dispatcher\<close>

definition CREDIT_COSTS :: "(string \<times> int) list" where
  "CREDIT_COSTS =
     [(''merge'', 2), (''split'', 2), (''rotate'', 1), (''compress'', 3), (''watermark'', 2),
      (''protect'', 2), (''unlock'', 3), (''extract_pages'', 1), (''add_page_numbers'', 1),
      (''delete_pages'', 1), (''reorder_pages'', 1)]"

text \<open>
  \<open>CREDIT_COSTS[operation]\<close> is a property read of an object literal: a key of the
  table gives its cost, a key that \<open>Object.prototype\<close> defines gives a function or an
  object (truthy, and \<open>NaN\<close> in a comparison), any other key gives \<open>undefined\<close>.
\<close>

datatype cost_lookup = Cost int | Inherited | Undefined

definition objectPrototypeKeys :: "string list" where
  "objectPrototypeKeys =
     [''constructor'', ''hasOwnProperty'', ''isPrototypeOf'', ''propertyIsEnumerable'',
      ''toLocaleString'', ''toString'', ''valueOf'', ''__proto__'', ''__defineGetter__'',
      ''__defineSetter__'', ''__lookupGetter__'', ''__lookupSetter__'']"

definition lookupCost :: "string \<Rightarrow> cost_lookup" where
  "lookupCost operation =
     (case map_of CREDIT_COSTS operation of
        Some cost \<Rightarrow> Cost cost
      | None \<Rightarrow> if operation \<in> set objectPrototypeKeys then Inherited else Undefined)"

record http_request =
  operationParam :: "string option"
  authorization :: "string option"
  formBody :: "string + form_data"

datatype response_body =
    ErrorJson string
  | InvalidOperationJson "string list"
  | InsufficientJson cost_lookup int string
  | DeductedJson int
  | PdfBody "page list"

record response =
  status :: nat
  responseBody :: response_body
  headers :: "(string \<times> string) list"

definition json :: "nat \<Rightarrow> response_body \<Rightarrow> response" where
  "json st b = \<lparr>status = st, responseBody = b, headers = []\<rparr>"

definition startsWith :: "string \<Rightarrow> string \<Rightarrow> bool" where
  "startsWith s p = (take (length p) s = p)"

text \<open>\<open>supabase.auth.getUser(token)\<close>: the user of the token, or an error.\<close>

definition auth_getUser :: "string \<Rightarrow> db \<Rightarrow> string option \<times> db" where
  "auth_getUser token d =
     (case issue (AuthGetUser token) d of
        (Some e, d1) \<Rightarrow> (None, d1)
      | (None, d1) \<Rightarrow> (auth_users d1 token, d1))"

text \<open>
  \<open>authenticateAndCheckCredits\<close>: the bearer token, the user behind it, and the column
  \<open>balance\<close> of the user's row against the cost (an error of that read is not looked
  at: the balance then counts as 0). The answer is the user id, or the response that
  ends the request.
\<close>

definition authenticateAndCheckCredits ::
  "http_request \<Rightarrow> string \<Rightarrow> db \<Rightarrow> (string \<times> response option) \<times> db" where
  "authenticateAndCheckCredits request operation d =
     (case authorization request of
        None \<Rightarrow> (([], Some (json 401 (ErrorJson ''Unauthorized''))), d)
      | Some authHeader \<Rightarrow>
          if \<not> startsWith authHeader ''Bearer ''
          then (([], Some (json 401 (ErrorJson ''Unauthorized''))), d)
          else
            (case auth_getUser (drop 7 authHeader) d of
               (None, d1) \<Rightarrow> (([], Some (json 401 (ErrorJson ''Invalid token''))), d1)
             | (Some userId, d1) \<Rightarrow>
                 (case select_single ''balance'' userId d1 of
                    ((creditData, creditError), d2) \<Rightarrow>
                      (let balance' = orZero (case creditData of None \<Rightarrow> None
                                                             | Some row \<Rightarrow> balance row);
                           cost = lookupCost operation
                       in if (case cost of Cost c \<Rightarrow> balance' < c | _ \<Rightarrow> False)
                          then ((userId,
                                 Some (json 402 (InsufficientJson cost balance' operation))), d2)
                          else ((userId, None), d2)))))"

text \<open>
  The stored procedure \<open>deduct_credits\<close> is not part of the repository: its effect on
  the datastore and its error are the parameter \<open>proc\<close>. \<open>deductCredits\<close> of the route
  calls it, throws \<open>Failed to deduct credits\<close> on an error, and then inserts the audit
  row, whose result it does not look at.
\<close>

definition rpc_deduct_credits ::
  "(string \<Rightarrow> int \<Rightarrow> string \<Rightarrow> db \<Rightarrow> db_error option \<times> db) \<Rightarrow>
   string \<Rightarrow> int \<Rightarrow> string \<Rightarrow> db \<Rightarrow> db_error option \<times> db" where
  "rpc_deduct_credits proc p_user_id p_amount p_reason d =
     (case issue (RpcDeductCredits p_user_id p_amount p_reason) d of
        (Some e, d1) \<Rightarrow> (Some e, d1)
      | (None, d1) \<Rightarrow> proc p_user_id p_amount p_reason d1)"

definition deductCredits ::
  "(string \<Rightarrow> int \<Rightarrow> string \<Rightarrow> db \<Rightarrow> db_error option \<times> db) \<Rightarrow>
   string \<Rightarrow> string \<Rightarrow> string \<Rightarrow> db \<Rightarrow> string option \<times> db" where
  "deductCredits proc userId operation description' d =
     (let cost = (case lookupCost operation of Cost c \<Rightarrow> c | _ \<Rightarrow> 0) in
      case rpc_deduct_credits proc userId cost
             (''PDF '' @ operation @ '': '' @ description') d of
        (Some updateError, d1) \<Rightarrow> (Some ''Failed to deduct credits'', d1)
      | (None, d1) \<Rightarrow>
          (case insert_transaction
                  \<lparr>tx_user_id = userId, tx_amount = - cost, tx_reason = None,
                   tx_created_at = None, tx_type = Some ''usage'',
                   tx_description = Some (''PDF '' @ operation @ '': '' @ description'),
                   tx_app = Some ''pdf-builder-pro''\<rparr> d1 of
             (_, d2) \<Rightarrow> (None, d2)))"

text \<open>
  The handlers whose bodies are byte-level or drawing work of the PDF library are
  parameters; \<open>pageDrawText\<close> is the drawing of the watermark on one page.
\<close>

record library_handlers =
  handleMerge :: "form_data \<Rightarrow> string + handler_result"
  handleSplit :: "form_data \<Rightarrow> string + handler_result"
  handleCompress :: "form_data \<Rightarrow> string + handler_result"
  pageDrawText :: "form_data \<Rightarrow> page \<Rightarrow> string + page"
  handleAddPageNumbers :: "form_data \<Rightarrow> string + handler_result"

text \<open>
  The \<open>switch (operation)\<close> of \<open>POST\<close>: the result of the handler, \<open>Inl\<close> the message of
  the error it throws, or \<open>None\<close> for the \<open>default\<close> branch.
\<close>

definition switchOperation ::
  "library_handlers \<Rightarrow> string \<Rightarrow> form_data \<Rightarrow> (string + handler_result) option" where
  "switchOperation lib operation formData =
     (if operation = ''merge'' then Some (handleMerge lib formData)
      else if operation = ''split'' then Some (handleSplit lib formData)
      else if operation = ''rotate'' then Some (handleRotate formData)
      else if operation = ''compress'' then Some (handleCompress lib formData)
      else if operation = ''watermark'' then Some (handleWatermark (pageDrawText lib) formData)
      else if operation = ''extract_pages'' then Some (handleExtractPages formData)
      else if operation = ''add_page_numbers'' then Some (handleAddPageNumbers lib formData)
      else if operation = ''delete_pages'' then Some (handleDeletePages formData)
      else if operation = ''reorder_pages'' then Some (handleReorderPages formData)
      else None)"

definition orMessage :: "string \<Rightarrow> string \<Rightarrow> string" where
  "orMessage m dflt = (if m = [] then dflt else m)"

text \<open>
  \<open>POST\<close> of the PDF operations route. Whatever is thrown inside \<open>try\<close> ends in the
  response 500 with the message of the error.
\<close>

definition POST ::
  "library_handlers \<Rightarrow> (string \<Rightarrow> int \<Rightarrow> string \<Rightarrow> db \<Rightarrow> db_error option \<times> db) \<Rightarrow>
   http_request \<Rightarrow> db \<Rightarrow> response \<times> db" where
  "POST lib proc request d =
     (let operation = stringOr (operationParam request) [] in
      if lookupCost operation = Undefined
      then (json 400 (InvalidOperationJson (map fst CREDIT_COSTS)), d)
      else
        (case authenticateAndCheckCredits request operation d of
           ((userId, Some error'), d1) \<Rightarrow> (error', d1)
         | ((userId, None), d1) \<Rightarrow>
             (case formBody request of
                Inl thrown \<Rightarrow> (json 500 (ErrorJson (orMessage thrown ''PDF operation failed'')), d1)
              | Inr formData \<Rightarrow>
                  (case switchOperation lib operation formData of
                     None \<Rightarrow> (json 501 (ErrorJson ''Operation not implemented''), d1)
                   | Some (Inl thrown) \<Rightarrow>
                       (json 500 (ErrorJson (orMessage thrown ''PDF operation failed'')), d1)
                   | Some (Inr result) \<Rightarrow>
                       (case deductCredits proc userId operation (filename result) d1 of
                          (Some thrown, d2) \<Rightarrow>
                            (json 500 (ErrorJson (orMessage thrown ''PDF operation failed'')), d2)
                        | (None, d2) \<Rightarrow>
                            (\<lparr>status = 200,
                              responseBody = PdfBody (pdfBytes result),
                              headers =
                                [(''Content-Type'', ''application/pdf''),
                                 (''Content-Disposition'',
                                    ''attachment; filename='' @ [CHR 0x22] @ filename result @
                                    [CHR 0x22]),
                                 (''X-Operation'', operation),
                                 (''X-Credits-Used'',
                                    (case lookupCost operation of
                                       Cost c \<Rightarrow> showInt c | _ \<Rightarrow> [])),
                                 (''X-Message'', resultMessage result)]\<rparr>, d2))))))"

section \<open>The endpoint \<open>POST /credits/deduct\<close>\<close>

text \<open>
  The JSON body of the request: \<open>{ user_id, amount, reason }\<close>, each key possibly
  absent. \<open>request.json()\<close> may reject (\<open>Inl\<close>, with the message of the error).
\<close>

record deduct_body =
  body_user_id :: "string option"
  body_amount :: "int option"
  body_reason :: "string option"

record deduct_request =
  deductAuthorization :: "string option"
  jsonBody :: "string + deduct_body"

definition unknownErrorMessage :: "db_error \<Rightarrow> string" where
  "unknownErrorMessage e = (if instanceofError e then message e else ''Unknown error'')"

text \<open>
  \<open>POST\<close> of the route: the handler reads the body only; it never reads a header of
  the request. \<open>now\<close> is \<open>new Date().toISOString()\<close>.
\<close>

definition creditsDeductPOST :: "deduct_request \<Rightarrow> string \<Rightarrow> db \<Rightarrow> response \<times> db" where
  "creditsDeductPOST request now d =
     (case jsonBody request of
        Inl thrown \<Rightarrow> (json 500 (ErrorJson thrown), d)
      | Inr body \<Rightarrow>
          if stringOr (body_user_id body) [] = [] \<or> numberOr (body_amount body) 0 = 0
          then (json 400 (ErrorJson ''User ID and amount are required''), d)
          else
            (let user_id = stringOr (body_user_id body) [];
                 amount = numberOr (body_amount body) 0
             in case select_single ''credits'' user_id d of
                  ((userData, Some fetchError), d1) \<Rightarrow>
                    (json 500 (ErrorJson (unknownErrorMessage fetchError)), d1)
                | ((userData, None), d1) \<Rightarrow>
                    (let currentCredits =
                           orZero (case userData of None \<Rightarrow> None | Some row \<Rightarrow> credits row)
                     in if currentCredits < amount
                        then (json 402 (ErrorJson ''Insufficient credits''), d1)
                        else
                          (case update_credits user_id (currentCredits - amount) d1 of
                             (Some updateError, d2) \<Rightarrow>
                               (json 500 (ErrorJson (unknownErrorMessage updateError)), d2)
                           | (None, d2) \<Rightarrow>
                               (case insert_transaction
                                       \<lparr>tx_user_id = user_id, tx_amount = - amount,
                                        tx_reason = Some (stringOr (body_reason body) ''Credit usage''),
                                        tx_created_at = Some now, tx_type = None,
                                        tx_description = None, tx_app = None\<rparr> d2 of
                                  (_, d3) \<Rightarrow>
                                    (json 200 (DeductedJson (currentCredits - amount)), d3))))))"

section \<open>Example inputs\<close>

definition doc3 :: "page list" where
  "doc3 = [\<lparr>content = 1, rotation = 0\<rparr>, \<lparr>content = 2, rotation = 0\<rparr>,
           \<lparr>content = 3, rotation = 0\<rparr>]"

definition doc4 :: "page list" where
  "doc4 = [\<lparr>content = 1, rotation = 0\<rparr>, \<lparr>content = 2, rotation = 90\<rparr>,
           \<lparr>content = 3, rotation = 0\<rparr>, \<lparr>content = 4, rotation = 0\<rparr>]"

definition rotateForm :: "string \<Rightarrow> page list \<Rightarrow> form_data" where
  "rotateForm angle pdf =
     \<lparr>file' = Some \<lparr>name = ''a.pdf'', document = Inr pdf\<rparr>,
      entries = [''angle'' \<mapsto> angle, ''pages'' \<mapsto> ''odd'']\<rparr>"

definition droppedForm :: form_data where
  "droppedForm =
     \<lparr>file' = Some \<lparr>name = ''a.pdf'', document = Inr doc3\<rparr>,
      entries = [''range'' \<mapsto> ''9,0,5-3,abc'', ''pages'' \<mapsto> ''9,0,5-3,abc'',
                 ''angle'' \<mapsto> ''90'']\<rparr>"

definition ledgerExample :: db where
  "ledgerExample =
     \<lparr>user_credits = [''u1'' \<mapsto> \<lparr>credits = Some 10, balance = Some 10\<rparr>],
      credit_transactions = [],
      certificate_records = [],
      auth_users = [''token-1'' \<mapsto> ''u1''],
      calls = [],
      faults = (\<lambda>k. None)\<rparr>"

definition exampleLibrary :: library_handlers where
  "exampleLibrary =
     \<lparr>handleMerge = (\<lambda>formData. Inl ''At least 2 PDF files required for merge''),
      handleSplit = (\<lambda>formData. Inl ''PDF file required''),
      handleCompress = (\<lambda>formData. Inl ''PDF file required''),
      pageDrawText = (\<lambda>formData page. Inr page),
      handleAddPageNumbers = (\<lambda>formData. Inl ''PDF file required'')\<rparr>"

definition exampleProc :: "string \<Rightarrow> int \<Rightarrow> string \<Rightarrow> db \<Rightarrow> db_error option \<times> db" where
  "exampleProc p_user_id p_amount p_reason d =
     (None,
      (case user_credits d p_user_id of
         None \<Rightarrow> d
       | Some row \<Rightarrow>
           d\<lparr>user_credits :=
               (user_credits d)(p_user_id \<mapsto> row\<lparr>balance := Some (orZero (balance row) - p_amount)\<rparr>)\<rparr>))"

definition rotateRequest :: "form_data \<Rightarrow> http_request" where
  "rotateRequest formData =
     \<lparr>operationParam = Some ''rotate'',
      authorization = Some ''Bearer token-1'',
      formBody = Inr formData\<rparr>"

definition revokedCertificate :: "(8 word list \<Rightarrow> 8 word list) \<Rightarrow> certificate" where
  "revokedCertificate digest =
     \<lparr>certificate_id = ''CERT-AB12-CD34-EF56'',
      cert_user_id = ''u1'',
      signer_name = ''Ada'',
      cert_reason = ''Approval'',
      document_hash = hashDocument digest [0x25, 0x50, 0x44, 0x46],
      cert_created_at = ''2025-12-27T10:00:00.000Z'',
      expires_at = Some ''2025-12-28T00:00:00.000Z'',
      revoked_at = Some ''2025-12-27T12:00:00.000Z''\<rparr>"

definition anonymousDeduct :: deduct_request where
  "anonymousDeduct =
     \<lparr>deductAuthorization = None,
      jsonBody = Inr \<lparr>body_user_id = Some ''u1'', body_amount = Some 3, body_reason = None\<rparr>\<rparr>"

section \<open>Properties of the page-range parser\<close>

lemma setSpread_fold:
  "distinct acc \<Longrightarrow>
     distinct (fold (\<lambda>x acc. if x \<in> set acc then acc else acc @ [x]) xs acc) \<and>
     set (fold (\<lambda>x acc. if x \<in> set acc then acc else acc @ [x]) xs acc) = set acc \<union> set xs"
  by (induction xs arbitrary: acc) auto

lemma distinct_setSpread: "distinct (setSpread xs)"
  using setSpread_fold [of "[]" xs] by (simp add: setSpread_def)

lemma set_setSpread: "set (setSpread xs) = set xs"
  using setSpread_fold [of "[]" xs] by (simp add: setSpread_def)

lemma rangeLoop_bounds:
  "(\<forall>x \<in> set indices. 0 \<le> x \<and> x < n) \<Longrightarrow>
     (\<forall>x \<in> set (rangeLoop i e n indices). 0 \<le> x \<and> x < n)"
proof (induction i e n indices rule: rangeLoop.induct)
  case (1 i e n indices)
  show ?case
  proof (cases "i \<le> e \<and> i \<le> n")
    case True
    have "\<forall>x \<in> set (if i \<ge> 1 then indices @ [i - 1] else indices). 0 \<le> x \<and> x < n"
      using True "1.prems" by auto
    with True "1.IH" show ?thesis
      by (subst rangeLoop.simps) simp
  next
    case False
    with "1.prems" show ?thesis
      by (subst rangeLoop.simps) auto
  qed
qed

lemma forRange_bounds:
  assumes "\<forall>x \<in> set indices. 0 \<le> x \<and> x < n"
  shows "\<forall>x \<in> set (forRange s e n indices). 0 \<le> x \<and> x < n"
proof (cases s)
  case None
  with assms show ?thesis by (simp add: forRange_def)
next
  case start: (Some a)
  show ?thesis
  proof (cases e)
    case None
    with start assms show ?thesis by (simp add: forRange_def)
  next
    case (Some b)
    with start rangeLoop_bounds [OF assms, of a b] show ?thesis
      by (simp add: forRange_def)
  qed
qed

lemma parsePart_bounds:
  assumes "\<forall>x \<in> set indices. 0 \<le> x \<and> x < n"
  shows "\<forall>x \<in> set (parsePart n indices part). 0 \<le> x \<and> x < n"
proof (cases "CHR ''-'' \<in> set (trim part)")
  case True
  then show ?thesis
    unfolding parsePart_def Let_def by (simp add: forRange_bounds [OF assms])
next
  case False
  then show ?thesis
    using assms unfolding parsePart_def Let_def by (auto split: option.splits)
qed

lemma foldl_parsePart_bounds:
  "(\<forall>x \<in> set indices. 0 \<le> x \<and> x < n) \<Longrightarrow>
     (\<forall>x \<in> set (foldl (parsePart n) indices parts). 0 \<le> x \<and> x < n)"
proof (induction parts arbitrary: indices)
  case Nil
  then show ?case by simp
next
  case (Cons p parts)
  from Cons.prems have "\<forall>x \<in> set (parsePart n indices p). 0 \<le> x \<and> x < n"
    by (rule parsePart_bounds)
  then have "\<forall>x \<in> set (foldl (parsePart n) (parsePart n indices p) parts). 0 \<le> x \<and> x < n"
    by (rule Cons.IH)
  then show ?case by simp
qed

lemma set_parsePageRange:
  "set (parsePageRange r n) = set (foldl (parsePart n) [] (split_js CHR '','' r))"
  by (simp add: parsePageRange_def set_setSpread)

lemma parsePageRange_bounds: "\<forall>x \<in> set (parsePageRange r n). 0 \<le> x \<and> x < n"
  unfolding set_parsePageRange by (rule foldl_parsePart_bounds) simp

lemma parsePageRange_example:
  "parsePageRange ''1-3,5,7-9'' 8 = [0, 1, 2, 4, 6, 7]"
  by code_simp

text \<open>
  C4. For every page-range expression \<open>r\<close> (so for every valid one: a comma-separated
  list of 1-indexed pages and inclusive ranges \<open>a-b\<close>) and every page count \<open>n\<close>,
  \<open>parsePageRange r n\<close> is strictly ascending, has no duplicate, and each of its
  elements lies in \<open>[0, n)\<close>.
\<close>

theorem parsePageRange_ascending_in_range:
  "sorted_wrt (<) (parsePageRange r n) \<and>
   distinct (parsePageRange r n) \<and>
   (\<forall>i \<in> set (parsePageRange r n). 0 \<le> i \<and> i < n)"
proof -
  have d: "distinct (parsePageRange r n)"
    by (simp add: parsePageRange_def distinct_setSpread)
  have s: "sorted (parsePageRange r n)"
    by (simp add: parsePageRange_def)
  from d s have "sorted_wrt (<) (parsePageRange r n)"
    by (simp add: strict_sorted_iff)
  with d show ?thesis
    using parsePageRange_bounds by blast
qed

theorem parsePageRange_ascending_in_range_witness:
  "parsePageRange ''1-3,5,7-9'' 8 = [0, 1, 2, 4, 6, 7] \<and>
   sorted_wrt (<) (parsePageRange ''1-3,5,7-9'' 8) \<and>
   distinct (parsePageRange ''1-3,5,7-9'' 8) \<and>
   list_all (\<lambda>i. 0 \<le> i \<and> i < 8) (parsePageRange ''1-3,5,7-9'' 8)"
  using parsePageRange_ascending_in_range [of "''1-3,5,7-9''" 8] parsePageRange_example
  by (simp add: list_all_iff)

section \<open>Properties of the document handlers\<close>

lemma allIndices_bounds: "\<forall>i \<in> set (allIndices n). 0 \<le> i \<and> i < n"
  by (auto simp: allIndices_def)

lemma distinct_allIndices: "distinct (allIndices n)"
  by (simp add: allIndices_def distinct_map inj_on_def)

lemma selectPages_bounds: "\<forall>i \<in> set (selectPages p n). 0 \<le> i \<and> i < n"
  using allIndices_bounds [of n] parsePageRange_bounds [of p n]
  by (simp add: selectPages_def)

lemma distinct_selectPages: "distinct (selectPages p n)"
  by (simp add: selectPages_def distinct_allIndices parsePageRange_def distinct_setSpread)

lemma forEach_rotatePage:
  "distinct sel \<Longrightarrow> (\<forall>i \<in> set sel. 0 \<le> i \<and> i < int (length pdf)) \<Longrightarrow>
   (\<forall>i \<in> set sel. (rotation (pdf ! nat i) + a) mod 90 = 0) \<Longrightarrow>
     forEach (rotatePage a) pdf sel =
       Inr (map (\<lambda>k. if int k \<in> set sel
                      then (pdf ! k)\<lparr>rotation := rotation (pdf ! k) + a\<rparr>
                      else pdf ! k) [0..<length pdf])"
proof (induction sel arbitrary: pdf)
  case Nil
  show ?case by (simp add: map_nth)
next
  case (Cons i sel)
  let ?p1 = "pdf[nat i := (pdf ! nat i)\<lparr>rotation := rotation (pdf ! nat i) + a\<rparr>]"
  from Cons.prems have i: "0 \<le> i" "i < int (length pdf)" "i \<notin> set sel"
    and grid: "(rotation (pdf ! nat i) + a) mod 90 = 0"
    by simp_all
  have step: "rotatePage a pdf i = Inr ?p1"
    using i grid by (simp add: rotatePage_def Let_def)
  have rest: "\<forall>j \<in> set sel. (rotation (?p1 ! nat j) + a) mod 90 = 0"
  proof
    fix j
    assume j: "j \<in> set sel"
    with Cons.prems i have "j \<noteq> i" and "0 \<le> j"
      by auto
    with i have "nat j \<noteq> nat i"
      by simp
    then have "?p1 ! nat j = pdf ! nat j"
      by simp
    with Cons.prems(3) j show "(rotation (?p1 ! nat j) + a) mod 90 = 0"
      by simp
  qed
  have "forEach (rotatePage a) ?p1 sel =
       Inr (map (\<lambda>k. if int k \<in> set sel
                      then (?p1 ! k)\<lparr>rotation := rotation (?p1 ! k) + a\<rparr>
                      else ?p1 ! k) [0..<length ?p1])"
  proof (rule Cons.IH)
    show "distinct sel"
      using Cons.prems(1) by simp
    show "\<forall>i \<in> set sel. 0 \<le> i \<and> i < int (length ?p1)"
      using Cons.prems(2) by simp
    show "\<forall>i \<in> set sel. (rotation (?p1 ! nat i) + a) mod 90 = 0"
      by (rule rest)
  qed
  moreover have "map (\<lambda>k. if int k \<in> set sel
                      then (?p1 ! k)\<lparr>rotation := rotation (?p1 ! k) + a\<rparr>
                      else ?p1 ! k) [0..<length ?p1] =
        map (\<lambda>k. if int k \<in> set (i # sel)
                      then (pdf ! k)\<lparr>rotation := rotation (pdf ! k) + a\<rparr>
                      else pdf ! k) [0..<length pdf]"
  proof (rule nth_equalityI)
    show "length (map (\<lambda>k. if int k \<in> set sel
                      then (?p1 ! k)\<lparr>rotation := rotation (?p1 ! k) + a\<rparr>
                      else ?p1 ! k) [0..<length ?p1]) =
        length (map (\<lambda>k. if int k \<in> set (i # sel)
                      then (pdf ! k)\<lparr>rotation := rotation (pdf ! k) + a\<rparr>
                      else pdf ! k) [0..<length pdf])"
      by simp
  next
    fix k
    assume "k < length (map (\<lambda>k. if int k \<in> set sel
                      then (?p1 ! k)\<lparr>rotation := rotation (?p1 ! k) + a\<rparr>
                      else ?p1 ! k) [0..<length ?p1])"
    then have k: "k < length pdf" by simp
    show "map (\<lambda>k. if int k \<in> set sel
                      then (?p1 ! k)\<lparr>rotation := rotation (?p1 ! k) + a\<rparr>
                      else ?p1 ! k) [0..<length ?p1] ! k =
        map (\<lambda>k. if int k \<in> set (i # sel)
                      then (pdf ! k)\<lparr>rotation := rotation (pdf ! k) + a\<rparr>
                      else pdf ! k) [0..<length pdf] ! k"
    proof (cases "k = nat i")
      case True
      with i k show ?thesis by simp
    next
      case False
      with i have "int k \<noteq> i" by auto
      with False k show ?thesis by simp
    qed
  qed
  ultimately show ?case
    by (simp add: step)
qed



lemma handleRotate_run:
  assumes "file' formData = Some f" and "document f = Inr pdf"
    and "rotationAngle formData \<in> {90, 180, 270, - 90, - 180, - 270}"
    and "\<forall>i \<in> set (selectPages (pagesSelector formData) (int (length pdf))).
           (rotation (pdf ! nat i) + rotationAngle formData) mod 90 = 0"
  shows "\<exists>r. handleRotate formData = Inr r \<and>
     pdfBytes r =
       map (\<lambda>k. if int k \<in> set (selectPages (pagesSelector formData) (int (length pdf)))
                 then (pdf ! k)\<lparr>rotation := rotation (pdf ! k) + rotationAngle formData\<rparr>
                 else pdf ! k) [0..<length pdf]"
proof -
  have run: "forEach (rotatePage (rotationAngle formData)) pdf
        (selectPages (pagesSelector formData) (int (length pdf))) =
      Inr (map (\<lambda>k. if int k \<in> set (selectPages (pagesSelector formData) (int (length pdf)))
                 then (pdf ! k)\<lparr>rotation := rotation (pdf ! k) + rotationAngle formData\<rparr>
                 else pdf ! k) [0..<length pdf])"
    by (rule forEach_rotatePage)
      (simp_all add: distinct_selectPages selectPages_bounds assms(4))
  from assms(3) have "\<not> rotationAngle formData \<notin> set [90, 180, 270, - 90, - 180, - 270]"
    by simp
  then show ?thesis
    using assms(1,2) by (simp add: handleRotate_def Let_def run)
qed

lemma rotate_rejects_rotation_off_grid:
  "handleRotate (rotateForm ''90'' [\<lparr>content = 1, rotation = 45\<rparr>]) =
     Inl ''degreesAngle must be a multiple of 90, but was actually 135''"
  by code_simp







lemma copyPages_in_range:
  "\<forall>i \<in> set sel. 0 \<le> i \<and> i < int (length src) \<Longrightarrow>
     copyPages src (map Some sel) = Inr (map (\<lambda>i. src ! nat i) sel)"
  by (simp add: copyPages_def list_all_iff comp_def)

lemma copyPages_allIndices:
  "copyPages src (map Some (allIndices (int (length src)))) = Inr src"
proof -
  have "copyPages src (map Some (allIndices (int (length src)))) =
      Inr (map (\<lambda>i. src ! nat i) (allIndices (int (length src))))"
    by (rule copyPages_in_range) (rule allIndices_bounds)
  also have "map (\<lambda>i. src ! nat i) (allIndices (int (length src))) = src"
    by (simp add: allIndices_def comp_def map_nth)
  finally show ?thesis .
qed

lemma parsePart_not_a_number:
  "CHR ''-'' \<notin> set (trim part) \<Longrightarrow> parseInt (trim part) = None \<Longrightarrow>
     parsePart n indices part = indices"
  by (simp add: parsePart_def)

lemma parsePart_out_of_bounds:
  "CHR ''-'' \<notin> set (trim part) \<Longrightarrow> parseInt (trim part) = Some num \<Longrightarrow>
     num < 1 \<or> n < num \<Longrightarrow> parsePart n indices part = indices"
  by (auto simp: parsePart_def)

lemma forRange_descending:
  "e < s \<Longrightarrow> forRange (Some s) (Some e) n indices = indices"
  by (simp add: forRange_def rangeLoop.simps [of s e])

lemma parsePageRange_dropped_examples:
  "parsePageRange ''0'' n = [] \<and> parsePageRange ''abc'' n = [] \<and> parsePageRange ''5-3'' n = []"
  by code_simp

lemma extract_of_empty_selection:
  assumes "file' formData = Some f" and "document f = Inr pdf"
    and "entries formData ''range'' = Some r" and "r \<noteq> []"
    and "parsePageRange r (int (length pdf)) = []"
  shows "\<exists>res. handleExtractPages formData = Inr res \<and> pdfBytes res = []"
  using assms by (simp add: handleExtractPages_def Let_def copyPages_def)

lemma delete_of_empty_selection:
  assumes "file' formData = Some f" and "document f = Inr pdf"
    and "entries formData ''pages'' = Some r" and "r \<noteq> []"
    and "parsePageRange r (int (length pdf)) = []" and "pdf \<noteq> []"
  shows "\<exists>res. handleDeletePages formData = Inr res \<and> pdfBytes res = pdf"
proof -
  from assms(6) have "allIndices (int (length pdf)) \<noteq> []"
    by (simp add: allIndices_def)
  with assms show ?thesis
    by (simp add: handleDeletePages_def Let_def copyPages_allIndices)
qed

lemma rotate_of_empty_selection:
  assumes "file' formData = Some f" and "document f = Inr pdf"
    and "selectPages (pagesSelector formData) (int (length pdf)) = []"
    and "rotationAngle formData \<in> {90, 180, 270, - 90, - 180, - 270}"
  shows "\<exists>res. handleRotate formData = Inr res \<and> pdfBytes res = pdf"
  using handleRotate_run [OF assms(1,2,4)] assms(3) by (simp add: map_nth)

lemma watermark_of_empty_selection:
  assumes "file' formData = Some f" and "document f = Inr pdf"
    and "selectPages (pagesSelector formData) (int (length pdf)) = []"
  shows "\<exists>res. handleWatermark drawText formData = Inr res \<and> pdfBytes res = pdf"
  using assms by (simp add: handleWatermark_def Let_def)

lemma selectPages_range:
  "r \<notin> {''all'', ''odd'', ''even''} \<Longrightarrow> selectPages r n = parsePageRange r n"
  by (simp add: selectPages_def)

text \<open>
  C10. \<open>parsePageRange\<close> is a total function of the string and the page count (it has
  no error result, and its loop terminates, as the termination proof of \<open>rangeLoop\<close>
  shows), and every index it returns lies in \<open>[0, n)\<close>. A part that is not a number, a
  page below 1 or beyond \<open>n\<close>, and a descending range add nothing to the result, so
  \<open>'0'\<close>, \<open>'abc'\<close> and \<open>'5-3'\<close> give the empty list. On a non-empty expression whose
  result is empty, extract returns a document of no pages, delete returns the
  document as it was (when it has a page), and rotate and watermark return it
  unchanged: none of them answers with an error.
\<close>

theorem parsePageRange_total_drops_silently:
  "(\<forall>i \<in> set (parsePageRange r n). 0 \<le> i \<and> i < n) \<and>
   (CHR ''-'' \<notin> set (trim part) \<and> parseInt (trim part) = None \<longrightarrow>
      parsePart n indices part = indices) \<and>
   (CHR ''-'' \<notin> set (trim part) \<and> parseInt (trim part) = Some num \<and> (num < 1 \<or> n < num) \<longrightarrow>
      parsePart n indices part = indices) \<and>
   (e < s \<longrightarrow> forRange (Some s) (Some e) n indices = indices) \<and>
   parsePageRange ''0'' n = [] \<and> parsePageRange ''abc'' n = [] \<and> parsePageRange ''5-3'' n = [] \<and>
   (file' formData = Some f \<and> document f = Inr pdf \<and> r \<noteq> [] \<and>
    parsePageRange r (int (length pdf)) = [] \<longrightarrow>
      (entries formData ''range'' = Some r \<longrightarrow>
         (\<exists>res. handleExtractPages formData = Inr res \<and> pdfBytes res = [])) \<and>
      (entries formData ''pages'' = Some r \<and> pdf \<noteq> [] \<longrightarrow>
         (\<exists>res. handleDeletePages formData = Inr res \<and> pdfBytes res = pdf)) \<and>
      (pagesSelector formData = r \<and> r \<notin> {''all'', ''odd'', ''even''} \<longrightarrow>
         (\<exists>res. handleWatermark drawText formData = Inr res \<and> pdfBytes res = pdf) \<and>
         (rotationAngle formData \<in> {90, 180, 270, - 90, - 180, - 270} \<longrightarrow>
            (\<exists>res. handleRotate formData = Inr res \<and> pdfBytes res = pdf))))"
proof (intro conjI impI)
  show "\<forall>i \<in> set (parsePageRange r n). 0 \<le> i \<and> i < n"
    by (rule parsePageRange_bounds)
next
  assume "CHR ''-'' \<notin> set (trim part) \<and> parseInt (trim part) = None"
  then show "parsePart n indices part = indices"
    by (simp add: parsePart_not_a_number)
next
  assume "CHR ''-'' \<notin> set (trim part) \<and> parseInt (trim part) = Some num \<and> (num < 1 \<or> n < num)"
  then show "parsePart n indices part = indices"
    using parsePart_out_of_bounds [of part num n indices] by blast
next
  assume "e < s"
  then show "forRange (Some s) (Some e) n indices = indices"
    by (rule forRange_descending)
next
  show "parsePageRange ''0'' n = []" "parsePageRange ''abc'' n = []" "parsePageRange ''5-3'' n = []"
    using parsePageRange_dropped_examples [of n] by simp_all
next
  assume doc: "file' formData = Some f \<and> document f = Inr pdf \<and> r \<noteq> [] \<and>
    parsePageRange r (int (length pdf)) = []"
  {
    assume "entries formData ''range'' = Some r"
    with doc show "\<exists>res. handleExtractPages formData = Inr res \<and> pdfBytes res = []"
      using extract_of_empty_selection [of formData f pdf r] by blast
  next
    assume "entries formData ''pages'' = Some r \<and> pdf \<noteq> []"
    with doc show "\<exists>res. handleDeletePages formData = Inr res \<and> pdfBytes res = pdf"
      using delete_of_empty_selection [of formData f pdf r] by blast
  next
    assume sel: "pagesSelector formData = r \<and> r \<notin> {''all'', ''odd'', ''even''}"
    with doc have empty: "selectPages (pagesSelector formData) (int (length pdf)) = []"
      using selectPages_range [of r "int (length pdf)"] by simp
    with doc show "\<exists>res. handleWatermark drawText formData = Inr res \<and> pdfBytes res = pdf"
      using watermark_of_empty_selection [of formData f pdf drawText] by blast
    assume "rotationAngle formData \<in> {90, 180, 270, - 90, - 180, - 270}"
    with doc empty show "\<exists>res. handleRotate formData = Inr res \<and> pdfBytes res = pdf"
      using rotate_of_empty_selection [of formData f pdf] by blast
  }
qed

lemma dropped_example:
  "parsePageRange ''9,0,5-3,abc'' 3 = [] \<and>
   handleExtractPages droppedForm =
     Inr \<lparr>pdfBytes = [], filename = ''a_extracted.pdf'',
          resultMessage = ''Extracted 0 pages from 3 total''\<rparr> \<and>
   handleDeletePages droppedForm =
     Inr \<lparr>pdfBytes = doc3, filename = ''a_modified.pdf'',
          resultMessage = ''Deleted 0 pages, 3 remaining''\<rparr> \<and>
   handleRotate droppedForm =
     Inr \<lparr>pdfBytes = doc3, filename = ''a_rotated_90deg.pdf'',
          resultMessage = ''Rotated 0 pages by 90'' @ [CHR 0xB0]\<rparr>"
  by code_simp

theorem parsePageRange_total_drops_silently_witness:
  "parsePageRange ''9,0,5-3,abc'' 3 = [] \<and>
   parsePart 3 [] ''abc'' = [] \<and>
   parsePart 3 [] ''9'' = [] \<and>
   forRange (Some 5) (Some 3) 3 [] = [] \<and>
   (\<exists>res. handleExtractPages droppedForm = Inr res \<and> pdfBytes res = []) \<and>
   (\<exists>res. handleDeletePages droppedForm = Inr res \<and> pdfBytes res = doc3) \<and>
   (\<exists>res. handleRotate droppedForm = Inr res \<and> pdfBytes res = doc3) \<and>
   (\<exists>res. handleWatermark (\<lambda>formData page. Inr page) droppedForm = Inr res \<and>
      pdfBytes res = doc3)"
  using parsePageRange_total_drops_silently
      [where r = "''9,0,5-3,abc''" and n = 3 and part = "''abc''" and indices = "[]"
         and e = 3 and s = 5 and formData = droppedForm
         and f = "\<lparr>name = ''a.pdf'', document = Inr doc3\<rparr>" and pdf = doc3
         and drawText = "\<lambda>formData page. Inr page"]
    parsePageRange_total_drops_silently
      [where r = "''9''" and n = 3 and part = "''9''" and indices = "[]" and num = 9]
    dropped_example
  by (simp add: droppedForm_def doc3_def trim_def isWhiteSpace_def parseInt_def
      radixDigit_def digitValue_def mathInt_def pagesSelector_def stringOr_def)

text \<open>
  C5. The specification asks \<open>handleReorderPages\<close> to reject every order that is not a
  bijection onto \<open>[1, n]\<close>. The handler checks the length and the bounds only: on a
  document of three pages the order \<open>1,1,2\<close> is accepted, and the result holds page 1
  twice and page 3 not at all. (The lemmas after it show what the handler does
  check: a wrong length and a page outside \<open>[1, n]\<close> are rejected, and an accepted order
  puts the page \<open>order[i]\<close> at position \<open>i\<close>.)
\<close>

theorem reorder_accepts_duplicate_page:
  "handleReorderPages
     \<lparr>file' = Some \<lparr>name = ''a.pdf'', document = Inr doc3\<rparr>,
      entries = [''order'' \<mapsto> ''1,1,2'']\<rparr> =
   Inr \<lparr>pdfBytes = [\<lparr>content = 1, rotation = 0\<rparr>, \<lparr>content = 1, rotation = 0\<rparr>,
                    \<lparr>content = 2, rotation = 0\<rparr>],
        filename = ''a_reordered.pdf'',
        resultMessage = ''Reordered 3 pages''\<rparr>"
  by code_simp


lemma reorder_rejects_wrong_length:
  assumes "file' formData = Some f" and "document f = Inr pdf"
    and "entries formData ''order'' = Some newOrder" and "newOrder \<noteq> []"
    and "length (split_js CHR '','' newOrder) \<noteq> length pdf"
  shows "handleReorderPages formData =
           Inl (''Order must include all '' @ showInt (int (length pdf)) @ '' pages'')"
  using assms by (simp add: handleReorderPages_def Let_def)

lemma reorder_rejects_out_of_bounds:
  assumes "file' formData = Some f" and "document f = Inr pdf"
    and "entries formData ''order'' = Some newOrder" and "newOrder \<noteq> []"
    and "length (split_js CHR '','' newOrder) = length pdf"
    and "piece \<in> set (split_js CHR '','' newOrder)"
    and "parseInt (trim piece) = Some v" and "v < 1 \<or> int (length pdf) < v"
  shows "handleReorderPages formData = Inl ''Invalid page number in order''"
proof -
  have "list_ex (\<lambda>i. case i of None \<Rightarrow> False | Some k \<Rightarrow> k < 0 \<or> k \<ge> int (length pdf))
          (map (\<lambda>n. map_option (\<lambda>v. v - 1) (parseInt (trim n))) (split_js CHR '','' newOrder))"
    unfolding list_ex_iff using assms(6-8) by (auto intro!: bexI [of _ piece])
  with assms(1-5) show ?thesis
    by (simp add: handleReorderPages_def Let_def)
qed

lemma reorder_accepts_in_range:
  assumes "file' formData = Some f" and "document f = Inr pdf"
    and "entries formData ''order'' = Some newOrder" and "newOrder \<noteq> []"
    and "length (split_js CHR '','' newOrder) = length pdf"
    and "\<forall>piece \<in> set (split_js CHR '','' newOrder).
           \<exists>v. parseInt (trim piece) = Some v \<and> 1 \<le> v \<and> v \<le> int (length pdf)"
  shows "\<exists>res. handleReorderPages formData = Inr res \<and>
           pdfBytes res =
             map (\<lambda>piece. pdf ! nat (the (parseInt (trim piece)) - 1))
               (split_js CHR '','' newOrder)"
proof -
  let ?order = "map (\<lambda>n. map_option (\<lambda>v. v - 1) (parseInt (trim n))) (split_js CHR '','' newOrder)"
  have ok: "\<not> list_ex (\<lambda>i. case i of None \<Rightarrow> False | Some k \<Rightarrow> k < 0 \<or> k \<ge> int (length pdf)) ?order"
    unfolding list_ex_iff using assms(6) by fastforce
  have all: "list_all (\<lambda>i. case i of None \<Rightarrow> False | Some k \<Rightarrow> 0 \<le> k \<and> k < int (length pdf)) ?order"
    unfolding list_all_iff using assms(6) by fastforce
  have "map (\<lambda>i. pdf ! nat (the i)) ?order =
        map (\<lambda>piece. pdf ! nat (the (parseInt (trim piece)) - 1)) (split_js CHR '','' newOrder)"
    using assms(6) by (auto simp: comp_def)
  with all have "copyPages pdf ?order =
      Inr (map (\<lambda>piece. pdf ! nat (the (parseInt (trim piece)) - 1)) (split_js CHR '','' newOrder))"
    by (simp add: copyPages_def)
  with ok assms(1-5) show ?thesis
    by (simp add: handleReorderPages_def Let_def)
qed

section \<open>Properties of the credit ledger\<close>

lemmas store_defs = issue_def select_single_def insert_credits_def update_credits_def
  insert_transaction_def

lemma checkUserCredits_row:
  assumes "user_credits d userId = Some row"
  shows "checkUserCredits userId req d =
     (case faults d (length (calls d)) of
        None \<Rightarrow> (Inr \<lparr>hasCredits = (orZero (credits row) \<ge> req), current = orZero (credits row)\<rparr>,
                 d\<lparr>calls := calls d @ [SelectCredits ''credits'' userId]\<rparr>)
      | Some e \<Rightarrow>
          if code e = ''PGRST116''
          then (Inr \<lparr>hasCredits = False, current = 0\<rparr>,
                d\<lparr>calls := calls d @ [SelectCredits ''credits'' userId, InsertCredits userId 0]\<rparr>)
          else (Inl e, d\<lparr>calls := calls d @ [SelectCredits ''credits'' userId]\<rparr>))"
  using assms
  by (simp add: checkUserCredits_def store_defs Let_def split: option.splits)


text \<open>
  C1. When the stored balance \<open>b\<close> of the user is below the cost, \<open>deductCreditsAtomic\<close>
  leaves \<open>user_credits\<close> and \<open>credit_transactions\<close> as they were, whatever the
  datastore does; and when the read of the balance succeeds, it returns the failure
  result carrying \<open>b\<close>, having made no call but that read.
\<close>

theorem deduct_insufficient:
  assumes "user_credits d userId = Some row" and "credits row = Some b" and "b < amount"
  shows "user_credits (snd (deductCreditsAtomic userId amount reason now d)) = user_credits d \<and>
         credit_transactions (snd (deductCreditsAtomic userId amount reason now d)) =
           credit_transactions d \<and>
         (faults d (length (calls d)) = None \<longrightarrow>
            fst (deductCreditsAtomic userId amount reason now d) =
              Inr \<lparr>success = False, error = Some ''Insufficient credits'',
                   remaining = b, required = Some amount\<rparr> \<and>
            calls (snd (deductCreditsAtomic userId amount reason now d)) =
              calls d @ [SelectCredits ''credits'' userId])"
  using assms
  by (simp add: deductCreditsAtomic_def checkUserCredits_row orZero_def split: option.splits)


theorem deduct_insufficient_witness:
  "user_credits ledgerExample ''u1'' = Some \<lparr>credits = Some 10, balance = Some 10\<rparr> \<and>
   (10 :: int) < 11 \<and>
   faults ledgerExample (length (calls ledgerExample)) = None \<and>
   fst (deductCreditsAtomic ''u1'' 11 ''merge'' ''2025-12-27'' ledgerExample) =
     Inr \<lparr>success = False, error = Some ''Insufficient credits'', remaining = 10,
          required = Some 11\<rparr> \<and>
   user_credits (snd (deductCreditsAtomic ''u1'' 11 ''merge'' ''2025-12-27'' ledgerExample)) ''u1'' =
     Some \<lparr>credits = Some 10, balance = Some 10\<rparr> \<and>
   credit_transactions (snd (deductCreditsAtomic ''u1'' 11 ''merge'' ''2025-12-27'' ledgerExample)) = [] \<and>
   calls (snd (deductCreditsAtomic ''u1'' 11 ''merge'' ''2025-12-27'' ledgerExample)) =
     [SelectCredits ''credits'' ''u1'']"
  using deduct_insufficient [of ledgerExample "''u1''" "\<lparr>credits = Some 10, balance = Some 10\<rparr>"
      10 11 "''merge''" "''2025-12-27''"]
  by (simp add: ledgerExample_def)

text \<open>
  C2. With a stored balance \<open>b\<close>, a cost \<open>amount \<le> b\<close> and a datastore whose calls
  succeed (one caller, no call in between), \<open>deductCreditsAtomic\<close> returns success
  with \<open>remaining = b - amount\<close>, the audit row is appended, and the read of
  \<open>checkUserCredits\<close> right after it gives \<open>b - amount\<close>.
\<close>

theorem deduct_then_read:
  assumes "user_credits d userId = Some row" and "credits row = Some b" and "amount \<le> b"
    and "faults d (length (calls d)) = None"
    and "faults d (length (calls d) + 1) = None"
    and "faults d (length (calls d) + 2) = None"
    and "faults d (length (calls d) + 3) = None"
  shows "fst (deductCreditsAtomic userId amount reason now d) =
           Inr \<lparr>success = True, error = None, remaining = b - amount, required = None\<rparr> \<and>
         fst (checkUserCredits userId req (snd (deductCreditsAtomic userId amount reason now d))) =
           Inr \<lparr>hasCredits = (b - amount \<ge> req), current = b - amount\<rparr> \<and>
         user_credits (snd (deductCreditsAtomic userId amount reason now d)) =
           (user_credits d)(userId \<mapsto> row\<lparr>credits := Some (b - amount)\<rparr>) \<and>
         credit_transactions (snd (deductCreditsAtomic userId amount reason now d)) =
           credit_transactions d @
             [\<lparr>tx_user_id = userId, tx_amount = - amount, tx_reason = Some reason,
               tx_created_at = Some now, tx_type = None, tx_description = None,
               tx_app = None\<rparr>]"
proof -
  let ?d3 = "snd (deductCreditsAtomic userId amount reason now d)"
  have run: "deductCreditsAtomic userId amount reason now d =
      (Inr \<lparr>success = True, error = None, remaining = b - amount, required = None\<rparr>,
       d\<lparr>calls := calls d @ [SelectCredits ''credits'' userId, UpdateCredits userId (b - amount),
              InsertTransaction \<lparr>tx_user_id = userId, tx_amount = - amount, tx_reason = Some reason,
               tx_created_at = Some now, tx_type = None, tx_description = None,
               tx_app = None\<rparr>],
          user_credits := (user_credits d)(userId \<mapsto> row\<lparr>credits := Some (b - amount)\<rparr>),
          credit_transactions := credit_transactions d @
             [\<lparr>tx_user_id = userId, tx_amount = - amount, tx_reason = Some reason,
               tx_created_at = Some now, tx_type = None, tx_description = None,
               tx_app = None\<rparr>]\<rparr>)"
    using assms
    by (simp add: deductCreditsAtomic_def checkUserCredits_row orZero_def
        update_credits_def insert_transaction_def issue_def)
  have row': "user_credits ?d3 userId = Some (row\<lparr>credits := Some (b - amount)\<rparr>)"
    by (simp add: run)
  have nofault: "faults ?d3 (length (calls ?d3)) = None"
    using assms(7) by (simp add: run eval_nat_numeral)
  have "fst (checkUserCredits userId req ?d3) =
           Inr \<lparr>hasCredits = (b - amount \<ge> req), current = b - amount\<rparr>"
    by (simp add: checkUserCredits_row [OF row'] nofault orZero_def)
  then show ?thesis
    by (simp add: run)
qed

theorem deduct_then_read_witness:
  "user_credits ledgerExample ''u1'' = Some \<lparr>credits = Some 10, balance = Some 10\<rparr> \<and>
   (3 :: int) \<le> 10 \<and>
   faults ledgerExample (length (calls ledgerExample) + 3) = None \<and>
   fst (deductCreditsAtomic ''u1'' 3 ''merge'' ''2025-12-27'' ledgerExample) =
     Inr \<lparr>success = True, error = None, remaining = 7, required = None\<rparr> \<and>
   fst (checkUserCredits ''u1'' 0
          (snd (deductCreditsAtomic ''u1'' 3 ''merge'' ''2025-12-27'' ledgerExample))) =
     Inr \<lparr>hasCredits = True, current = 7\<rparr>"
  using deduct_then_read [of ledgerExample "''u1''" "\<lparr>credits = Some 10, balance = Some 10\<rparr>"
      10 3 "''merge''" "''2025-12-27''" 0]
  by (simp add: ledgerExample_def)

text \<open>
  C3. With a stored balance \<open>b\<close> and a cost \<open>amount \<le> b\<close>, when the read and the
  decrement succeed and the insert of the audit row fails, \<open>deductCreditsAtomic\<close>
  returns a result with \<open>success = False\<close> and the message of the error, and its last
  datastore call is the write of \<open>b\<close> to the balance of the user. No audit row is
  added. The stored balance is \<open>b\<close> again when that write succeeds (and stays
  \<open>b - amount\<close> when it fails too).
\<close>

theorem deduct_log_failure_compensates:
  assumes "user_credits d userId = Some row" and "credits row = Some b" and "amount \<le> b"
    and "faults d (length (calls d)) = None"
    and "faults d (length (calls d) + 1) = None"
    and "faults d (length (calls d) + 2) = Some logError"
  shows "fst (deductCreditsAtomic userId amount reason now d) =
           Inr \<lparr>success = False,
                error = Some (if instanceofError logError then message logError
                              else ''Transaction failed''),
                remaining = b, required = None\<rparr> \<and>
         calls (snd (deductCreditsAtomic userId amount reason now d)) =
           calls d @ [SelectCredits ''credits'' userId, UpdateCredits userId (b - amount),
              InsertTransaction \<lparr>tx_user_id = userId, tx_amount = - amount,
                tx_reason = Some reason, tx_created_at = Some now, tx_type = None,
                tx_description = None, tx_app = None\<rparr>,
              UpdateCredits userId b] \<and>
         credit_transactions (snd (deductCreditsAtomic userId amount reason now d)) =
           credit_transactions d \<and>
         user_credits (snd (deductCreditsAtomic userId amount reason now d)) userId =
           (case faults d (length (calls d) + 3) of
              None \<Rightarrow> Some row
            | Some e \<Rightarrow> Some (row\<lparr>credits := Some (b - amount)\<rparr>))"
  using assms
  by (simp add: deductCreditsAtomic_def checkUserCredits_row orZero_def catchResult_def
      update_credits_def insert_transaction_def issue_def eval_nat_numeral
      split: option.splits)

theorem deduct_log_failure_compensates_witness:
  "user_credits ledgerExample ''u1'' = Some \<lparr>credits = Some 10, balance = Some 10\<rparr> \<and>
   (3 :: int) \<le> 10 \<and>
   fst (deductCreditsAtomic ''u1'' 3 ''merge'' ''2025-12-27''
          (ledgerExample\<lparr>faults := (\<lambda>k. if k = 2
              then Some \<lparr>code = ''57014'', message = ''canceling statement'',
                         instanceofError = False\<rparr>
              else None)\<rparr>)) =
     Inr \<lparr>success = False, error = Some ''Transaction failed'', remaining = 10,
          required = None\<rparr> \<and>
   user_credits (snd (deductCreditsAtomic ''u1'' 3 ''merge'' ''2025-12-27''
          (ledgerExample\<lparr>faults := (\<lambda>k. if k = 2
              then Some \<lparr>code = ''57014'', message = ''canceling statement'',
                         instanceofError = False\<rparr>
              else None)\<rparr>))) ''u1'' =
     Some \<lparr>credits = Some 10, balance = Some 10\<rparr>"
  using deduct_log_failure_compensates
      [of "ledgerExample\<lparr>faults := (\<lambda>k. if k = 2
              then Some \<lparr>code = ''57014'', message = ''canceling statement'',
                         instanceofError = False\<rparr>
              else None)\<rparr>"
          "''u1''" "\<lparr>credits = Some 10, balance = Some 10\<rparr>" 10 3
          "\<lparr>code = ''57014'', message = ''canceling statement'', instanceofError = False\<rparr>"
          "''merge''" "''2025-12-27''"]
  by (simp add: ledgerExample_def)

section \<open>Properties of certificate verification\<close>

lemma hashDocument_example: "hashDocument (\<lambda>bs. bs) [0x00, 0x0f, 0xa0, 0xff] = ''000fa0ff''"
  by code_simp

text \<open>
  When the certificate of the id is found, \<open>valid\<close> is the comparison of the two
  hashes and nothing else: a presented document with another hash is never valid.
\<close>

lemma verify_valid_is_hash_match:
  assumes "pdfFile formData = Some arrayBuffer" and "certificateId formData = Some cid"
    and "cid \<noteq> []" and "faults d (length (calls d)) = None"
    and "filter (\<lambda>c. certificate_id c = cid) (certificate_records d) = [cert]"
  shows "\<exists>res chk. fst (handleVerifySignature digest formData d) = Inr res \<and>
           verifyData res = Check chk \<and>
           valid chk = (document_hash cert = hashDocument digest arrayBuffer)"
  using assms
  by (simp add: handleVerifySignature_def select_certificate_def issue_def stringOr_def Let_def)

text \<open>
  Whatever the datastore answers, a check that says \<open>valid\<close> found a certificate of
  the id whose stored hash is the hash of the presented bytes.
\<close>

lemma verify_valid_only_if_hash_matches:
  assumes "pdfFile formData = Some arrayBuffer" and "certificateId formData = Some cid"
    and "cid \<noteq> []"
    and "fst (handleVerifySignature digest formData d) = Inr res"
    and "verifyData res = Check chk" and "valid chk"
  shows "\<exists>cert \<in> set (certificate_records d).
           certificate_id cert = cid \<and> document_hash cert = hashDocument digest arrayBuffer"
proof -
  let ?found = "filter (\<lambda>c. certificate_id c = cid) (certificate_records d)"
  from assms obtain cert where one: "?found = [cert]"
    and hash: "document_hash cert = hashDocument digest arrayBuffer"
    by (auto simp: handleVerifySignature_def select_certificate_def issue_def stringOr_def
        Let_def split: option.splits list.splits if_splits)
  from one have "cert \<in> set ?found"
    by simp
  then have "cert \<in> set (certificate_records d)" and "certificate_id cert = cid"
    by simp_all
  with hash show ?thesis
    by blast
qed

text \<open>
  C7. The specification makes \<open>valid\<close> depend on revocation and expiry as well as on the hash.
  \<open>handleVerifySignature\<close> reads neither \<open>revoked_at\<close> nor \<open>expires_at\<close>: for a
  certificate that is revoked and has an expiry date, and whose stored hash is the
  hash of the presented bytes, it answers \<open>valid = True\<close>, whatever the digest function
  is.
\<close>

theorem verify_accepts_revoked_certificate:
  "fst (handleVerifySignature digest
          \<lparr>pdfFile = Some [0x25, 0x50, 0x44, 0x46], certificateId = Some ''CERT-AB12-CD34-EF56''\<rparr>
          (ledgerExample\<lparr>certificate_records := [revokedCertificate digest]\<rparr>)) =
   Inr \<lparr>verifyData = Check
          \<lparr>valid = True,
           checkedId = ''CERT-AB12-CD34-EF56'',
           signerName = Some ''Ada'',
           signedAt = Some ''2025-12-27T10:00:00.000Z'',
           checkReason = Some ''Approval'',
           hashMatch = Some True,
           warning = None\<rparr>,
        verifyMessage = ''Certificate verified successfully''\<rparr>"
  by (simp add: handleVerifySignature_def select_certificate_def issue_def stringOr_def
      ledgerExample_def revokedCertificate_def Let_def)

section \<open>Properties of the dispatcher\<close>

lemma switchOperation_Some_cost:
  "switchOperation lib operation formData = Some r \<Longrightarrow> \<exists>c. lookupCost operation = Cost c"
  by (auto simp: switchOperation_def lookupCost_def CREDIT_COSTS_def split: if_splits)

lemma authenticate_reads_only:
  assumes "authenticateAndCheckCredits request operation d = ((userId, r), d1)"
  shows "user_credits d1 = user_credits d \<and>
         credit_transactions d1 = credit_transactions d \<and>
         (calls d1 = calls d \<or>
          (\<exists>token. calls d1 = calls d @ [AuthGetUser token]) \<or>
          (\<exists>token u. calls d1 = calls d @ [AuthGetUser token, SelectCredits ''balance'' u])) \<and>
         (case r of None \<Rightarrow> True | Some resp \<Rightarrow> status resp = 401 \<or> status resp = 402)"
  using assms
  by (auto simp: authenticateAndCheckCredits_def auth_getUser_def select_single_def issue_def
      json_def Let_def split: option.splits if_splits prod.splits cost_lookup.splits)


lemma POST_without_result:
  assumes "\<forall>formData result. formBody request = Inr formData \<longrightarrow>
             switchOperation lib (stringOr (operationParam request) []) formData \<noteq> Some (Inr result)"
  shows "user_credits (snd (POST lib proc request d)) = user_credits d \<and>
         credit_transactions (snd (POST lib proc request d)) = credit_transactions d \<and>
         (calls (snd (POST lib proc request d)) = calls d \<or>
          (\<exists>token. calls (snd (POST lib proc request d)) = calls d @ [AuthGetUser token]) \<or>
          (\<exists>token u. calls (snd (POST lib proc request d)) =
                        calls d @ [AuthGetUser token, SelectCredits ''balance'' u])) \<and>
         status (fst (POST lib proc request d)) \<in> {400, 401, 402, 500, 501}"
proof -
  let ?op = "stringOr (operationParam request) []"
  obtain userId r d1 where auth: "authenticateAndCheckCredits request ?op d = ((userId, r), d1)"
    by (cases "authenticateAndCheckCredits request ?op d") auto
  note reads = authenticate_reads_only [OF auth]
  show ?thesis
  proof (cases "lookupCost ?op = Undefined")
    case True
    then show ?thesis by (simp add: POST_def Let_def json_def)
  next
    case known: False
    show ?thesis
    proof (cases r)
      case (Some resp)
      with known auth reads show ?thesis
        by (auto simp: POST_def Let_def)
    next
      case None
      show ?thesis
      proof (cases "formBody request")
        case (Inl thrown)
        with known auth reads None show ?thesis
          by (simp add: POST_def Let_def json_def)
      next
        case (Inr formData)
        with assms have "\<forall>result. switchOperation lib ?op formData \<noteq> Some (Inr result)"
          by simp
        with known auth reads None Inr show ?thesis
          by (simp add: POST_def Let_def json_def split: option.splits sum.splits)
      qed
    qed
  qed
qed

lemma POST_handler_throws:
  assumes "formBody request = Inr formData"
    and "switchOperation lib (stringOr (operationParam request) []) formData = Some (Inl thrown)"
    and "snd (fst (authenticateAndCheckCredits request (stringOr (operationParam request) []) d)) = None"
  shows "fst (POST lib proc request d) =
           json 500 (ErrorJson (orMessage thrown ''PDF operation failed''))"
proof -
  let ?op = "stringOr (operationParam request) []"
  obtain userId r d1 where auth: "authenticateAndCheckCredits request ?op d = ((userId, r), d1)"
    by (cases "authenticateAndCheckCredits request ?op d") auto
  with assms(3) have r: "r = None"
    by simp
  from switchOperation_Some_cost [OF assms(2)] have "lookupCost ?op \<noteq> Undefined"
    by auto
  with assms(1,2) auth r show ?thesis
    by (simp add: POST_def Let_def)
qed


lemma POST_rejected:
  assumes "lookupCost (stringOr (operationParam request) []) \<noteq> Undefined"
    and "authenticateAndCheckCredits request (stringOr (operationParam request) []) d =
           ((userId, Some resp), d1)"
  shows "POST lib proc request d = (resp, d1)"
  using assms by (simp add: POST_def Let_def)

text \<open>
  C8. In \<open>POST\<close> of the PDF operations route the deduction comes after the handler:
  when the handler of the operation throws, neither table changes, the request makes
  no datastore call but the reads of authentication and of the balance, and the
  response is an error (401 or 402 when the request does not get as far as the
  handler, 500 with the message of the handler's error when it does). Conversely a
  request whose trace holds a call of \<open>deduct_credits\<close> or an insert of an audit row is
  one whose handler returned a result.
\<close>

theorem charged_only_after_successful_handler:
  "(formBody request = Inr formData \<and>
    switchOperation lib (stringOr (operationParam request) []) formData = Some (Inl thrown) \<longrightarrow>
      user_credits (snd (POST lib proc request d)) = user_credits d \<and>
      credit_transactions (snd (POST lib proc request d)) = credit_transactions d \<and>
      (\<forall>c \<in> set (drop (length (calls d)) (calls (snd (POST lib proc request d)))).
          (\<exists>token. c = AuthGetUser token) \<or> (\<exists>u. c = SelectCredits ''balance'' u)) \<and>
      status (fst (POST lib proc request d)) \<in> {401, 402, 500} \<and>
      (snd (fst (authenticateAndCheckCredits request (stringOr (operationParam request) []) d)) = None
         \<longrightarrow> fst (POST lib proc request d) =
               json 500 (ErrorJson (orMessage thrown ''PDF operation failed'')))) \<and>
   ((\<exists>c \<in> set (drop (length (calls d)) (calls (snd (POST lib proc request d)))).
        (\<exists>u a r. c = RpcDeductCredits u a r) \<or> (\<exists>t. c = InsertTransaction t)) \<longrightarrow>
      (\<exists>formData result. formBody request = Inr formData \<and>
         switchOperation lib (stringOr (operationParam request) []) formData = Some (Inr result)))"
proof (intro conjI impI)
  let ?op = "stringOr (operationParam request) []"
  let ?post = "POST lib proc request d"
  assume thrown: "formBody request = Inr formData \<and> switchOperation lib ?op formData = Some (Inl thrown)"
  then have none: "\<forall>formData result. formBody request = Inr formData \<longrightarrow>
             switchOperation lib ?op formData \<noteq> Some (Inr result)"
    by auto
  note quiet = POST_without_result [OF none, of proc d]
  from quiet show "user_credits (snd ?post) = user_credits d"
    by blast
  from quiet show "credit_transactions (snd ?post) = credit_transactions d"
    by blast
  from quiet show "\<forall>c \<in> set (drop (length (calls d)) (calls (snd ?post))).
          (\<exists>token. c = AuthGetUser token) \<or> (\<exists>u. c = SelectCredits ''balance'' u)"
    by auto
  obtain userId r d1 where auth: "authenticateAndCheckCredits request ?op d = ((userId, r), d1)"
    by (cases "authenticateAndCheckCredits request ?op d") auto
  from thrown switchOperation_Some_cost [of lib ?op formData] have known: "lookupCost ?op \<noteq> Undefined"
    by auto
  show "status (fst ?post) \<in> {401, 402, 500}"
  proof (cases r)
    case None
    with auth thrown POST_handler_throws [of request formData lib thrown d proc]
    show ?thesis by (simp add: json_def)
  next
    case (Some resp)
    with auth authenticate_reads_only [OF auth] POST_rejected [OF known, of d userId resp d1 lib proc]
    show ?thesis by auto
  qed
  assume "snd (fst (authenticateAndCheckCredits request ?op d)) = None"
  with thrown show "fst ?post = json 500 (ErrorJson (orMessage thrown ''PDF operation failed''))"
    using POST_handler_throws [of request formData lib thrown d proc] by blast
next
  let ?op = "stringOr (operationParam request) []"
  let ?post = "POST lib proc request d"
  assume charged: "\<exists>c \<in> set (drop (length (calls d)) (calls (snd ?post))).
        (\<exists>u a r. c = RpcDeductCredits u a r) \<or> (\<exists>t. c = InsertTransaction t)"
  show "\<exists>formData result. formBody request = Inr formData \<and>
         switchOperation lib ?op formData = Some (Inr result)"
  proof (rule ccontr)
    assume "\<not> (\<exists>formData result. formBody request = Inr formData \<and>
         switchOperation lib ?op formData = Some (Inr result))"
    then have "\<forall>formData result. formBody request = Inr formData \<longrightarrow>
             switchOperation lib ?op formData \<noteq> Some (Inr result)"
      by blast
    from POST_without_result [OF this, of proc d] charged show False
      by auto
  qed
qed

lemma failed_rotate_example:
  "switchOperation exampleLibrary ''rotate'' \<lparr>file' = None, entries = Map.empty\<rparr> =
     Some (Inl ''PDF file required'') \<and>
   fst (POST exampleLibrary exampleProc
          (rotateRequest \<lparr>file' = None, entries = Map.empty\<rparr>) ledgerExample) =
     json 500 (ErrorJson ''PDF file required'') \<and>
   user_credits (snd (POST exampleLibrary exampleProc
          (rotateRequest \<lparr>file' = None, entries = Map.empty\<rparr>) ledgerExample)) ''u1'' =
     Some \<lparr>credits = Some 10, balance = Some 10\<rparr> \<and>
   calls (snd (POST exampleLibrary exampleProc
          (rotateRequest \<lparr>file' = None, entries = Map.empty\<rparr>) ledgerExample)) =
     [AuthGetUser ''token-1'', SelectCredits ''balance'' ''u1'']"
  by code_simp

lemma charged_rotate_example:
  "status (fst (POST exampleLibrary exampleProc (rotateRequest (rotateForm ''90'' doc4))
            ledgerExample)) = 200 \<and>
   calls (snd (POST exampleLibrary exampleProc (rotateRequest (rotateForm ''90'' doc4))
            ledgerExample)) =
     [AuthGetUser ''token-1'', SelectCredits ''balance'' ''u1'',
      RpcDeductCredits ''u1'' 1 ''PDF rotate: a_rotated_90deg.pdf'',
      InsertTransaction
        \<lparr>tx_user_id = ''u1'', tx_amount = - 1, tx_reason = None, tx_created_at = None,
         tx_type = Some ''usage'',
         tx_description = Some ''PDF rotate: a_rotated_90deg.pdf'',
         tx_app = Some ''pdf-builder-pro''\<rparr>] \<and>
   user_credits (snd (POST exampleLibrary exampleProc (rotateRequest (rotateForm ''90'' doc4))
            ledgerExample)) ''u1'' =
     Some \<lparr>credits = Some 10, balance = Some 9\<rparr>"
  by code_simp

theorem charged_only_after_successful_handler_witness:
  "formBody (rotateRequest \<lparr>file' = None, entries = Map.empty\<rparr>) =
     Inr \<lparr>file' = None, entries = Map.empty\<rparr> \<and>
   switchOperation exampleLibrary ''rotate'' \<lparr>file' = None, entries = Map.empty\<rparr> =
     Some (Inl ''PDF file required'') \<and>
   fst (POST exampleLibrary exampleProc
          (rotateRequest \<lparr>file' = None, entries = Map.empty\<rparr>) ledgerExample) =
     json 500 (ErrorJson ''PDF file required'') \<and>
   user_credits (snd (POST exampleLibrary exampleProc
          (rotateRequest \<lparr>file' = None, entries = Map.empty\<rparr>) ledgerExample)) =
     user_credits ledgerExample \<and>
   credit_transactions (snd (POST exampleLibrary exampleProc
          (rotateRequest \<lparr>file' = None, entries = Map.empty\<rparr>) ledgerExample)) = [] \<and>
   InsertTransaction
        \<lparr>tx_user_id = ''u1'', tx_amount = - 1, tx_reason = None, tx_created_at = None,
         tx_type = Some ''usage'',
         tx_description = Some ''PDF rotate: a_rotated_90deg.pdf'',
         tx_app = Some ''pdf-builder-pro''\<rparr>
     \<in> set (calls (snd (POST exampleLibrary exampleProc
                 (rotateRequest (rotateForm ''90'' doc4)) ledgerExample))) \<and>
   (\<exists>result. switchOperation exampleLibrary ''rotate'' (rotateForm ''90'' doc4) =
      Some (Inr result))"
  using charged_only_after_successful_handler
      [where request = "rotateRequest \<lparr>file' = None, entries = Map.empty\<rparr>"
         and formData = "\<lparr>file' = None, entries = Map.empty\<rparr>"
         and lib = exampleLibrary and thrown = "''PDF file required''"
         and proc = exampleProc and d = ledgerExample]
    charged_only_after_successful_handler
      [where request = "rotateRequest (rotateForm ''90'' doc4)"
         and lib = exampleLibrary and proc = exampleProc and d = ledgerExample]
    failed_rotate_example charged_rotate_example
  by (simp add: rotateRequest_def stringOr_def ledgerExample_def)

section \<open>Properties of the endpoint \<open>POST /credits/deduct\<close>\<close>

text \<open>The answer and the effect of the endpoint do not depend on the authorization header.\<close>

lemma deduct_endpoint_ignores_authorization:
  "creditsDeductPOST (request\<lparr>deductAuthorization := h\<rparr>) now d = creditsDeductPOST request now d"
  by (simp add: creditsDeductPOST_def)

text \<open>
  C9. The specification asks the endpoint to answer 401, and to leave every balance alone,
  for a request without a valid bearer token. The handler has no authentication
  step: a request with no authorization header that names user \<open>u1\<close> and the amount 3
  is answered with 200 and \<open>remaining_credits = 7\<close>, the stored balance of \<open>u1\<close> goes
  from 10 to 7, and an audit row is written.
\<close>

theorem deduct_endpoint_charges_without_token:
  "deductAuthorization anonymousDeduct = None \<and>
   fst (creditsDeductPOST anonymousDeduct ''2025-12-27T10:00:00.000Z'' ledgerExample) =
     json 200 (DeductedJson 7) \<and>
   user_credits (snd (creditsDeductPOST anonymousDeduct ''2025-12-27T10:00:00.000Z'' ledgerExample))
       ''u1'' = Some \<lparr>credits = Some 7, balance = Some 10\<rparr> \<and>
   credit_transactions
       (snd (creditsDeductPOST anonymousDeduct ''2025-12-27T10:00:00.000Z'' ledgerExample)) =
     [\<lparr>tx_user_id = ''u1'', tx_amount = - 3, tx_reason = Some ''Credit usage'',
       tx_created_at = Some ''2025-12-27T10:00:00.000Z'', tx_type = None,
       tx_description = None, tx_app = None\<rparr>]"
  by (simp add: creditsDeductPOST_def anonymousDeduct_def ledgerExample_def stringOr_def
      numberOr_def orZero_def select_single_def update_credits_def insert_transaction_def
      issue_def Let_def)

end
